theory Spec2Isabelle
  imports Complex_Main "HOL-Library.Word"
begin

unbundle bit_operations_syntax

section \<open>The C library functions the parser calls\<close>

text \<open>
  The response parser of QuectelGnssRK is built on \<^verbatim>\<open>sscanf\<close>.  The scanner below
  follows ISO C 7.21.6.2 for the directives the library's three format strings use:
  white space, ordinary characters, \<^verbatim>\<open>%u\<close> with an optional field width and
  assignment suppression, and \<^verbatim>\<open>%f\<close> / \<^verbatim>\<open>%lf\<close>.  A C string is the list of its
  characters before the terminating NUL.

  \<^item> \<^verbatim>\<open>unsigned int\<close> is \<open>32 word\<close>.
  \<^item> \<^verbatim>\<open>float\<close> and \<^verbatim>\<open>double\<close> are idealised as \<open>real\<close>: rounding, NaN and
    infinities are not modelled, and the floating-point scanner accepts the decimal
    subject sequences (sign, digits, point, digits) the modem emits; exponents and the
    hexadecimal, \<^verbatim>\<open>inf\<close> and \<^verbatim>\<open>nan\<close> forms are left out.
\<close>

definition isspace :: "char \<Rightarrow> bool" where
  "isspace c = (c = CHR '' '' \<or> c = CHR 0x09 \<or> c = CHR 0x0A \<or> c = CHR 0x0B
                \<or> c = CHR 0x0C \<or> c = CHR 0x0D)"

definition isdigit :: "char \<Rightarrow> bool" where
  "isdigit c = (48 \<le> (of_char c :: nat) \<and> (of_char c :: nat) \<le> 57)"

definition digits_val :: "string \<Rightarrow> nat" where
  "digits_val ds = foldl (\<lambda>a c. 10 * a + (of_char c - 48)) 0 ds"

datatype conv = ConvU | ConvF

datatype directive = WS | Lit char | Conv bool nat conv

datatype fmt_state = Normal | Spec bool nat

text \<open>
  Reading a format string: a white-space character is a white-space directive, \<^verbatim>\<open>%\<close>
  opens a conversion specification (\<^verbatim>\<open>*\<close> suppresses assignment, decimal digits give
  the field width, \<^verbatim>\<open>l\<close> is the length modifier), any other character is an ordinary
  character.  Width 0 stands for no width given.
\<close>

fun parse_fmt :: "fmt_state \<Rightarrow> string \<Rightarrow> directive list" where
  "parse_fmt st [] = []"
| "parse_fmt Normal (c # cs) =
     (if c = CHR ''%'' then parse_fmt (Spec False 0) cs
      else if isspace c then WS # parse_fmt Normal cs
      else Lit c # parse_fmt Normal cs)"
| "parse_fmt (Spec skip w) (c # cs) =
     (if c = CHR ''*'' then parse_fmt (Spec True w) cs
      else if isdigit c then parse_fmt (Spec skip (10 * w + (of_char c - 48))) cs
      else if c = CHR ''l'' then parse_fmt (Spec skip w) cs
      else if c = CHR ''u'' then Conv skip w ConvU # parse_fmt Normal cs
      else if c = CHR ''f'' then Conv skip w ConvF # parse_fmt Normal cs
      else [])"

datatype 'a scanres = Scanned 'a string | MatchFailure | InputFailure

text \<open>
  \<^verbatim>\<open>strtoul\<close> on a digit sequence: the value saturates at \<^verbatim>\<open>ULONG_MAX\<close>, and a
  leading minus sign negates it in unsigned arithmetic.
\<close>

definition strtoul :: "bool \<Rightarrow> string \<Rightarrow> 32 word" where
  "strtoul neg ds =
     (let n = digits_val ds in
      if 2 ^ 32 \<le> n then - 1
      else if neg then - (word_of_nat n) else word_of_nat n)"

definition field :: "nat \<Rightarrow> string \<Rightarrow> string" where
  "field w s = (if w = 0 then s else take w s)"

definition is_sign :: "char \<Rightarrow> bool" where
  "is_sign c = (c = CHR ''+'' \<or> c = CHR ''-'')"

text \<open>
  A conversion skips leading white space first; running out of input there is an input
  failure.  An item with no digit in it is a matching failure.
\<close>

definition scan_u :: "nat \<Rightarrow> string \<Rightarrow> (32 word) scanres" where
  "scan_u w s =
     (case dropWhile isspace s of
        [] \<Rightarrow> InputFailure
      | c # cs \<Rightarrow>
          (let f = field w (c # cs);
               sg = (if is_sign c then 1 else 0);
               ds = takeWhile isdigit (drop sg f)
           in if ds = [] then MatchFailure
              else Scanned (strtoul (c = CHR ''-'') ds) (drop (sg + length ds) (c # cs))))"

definition scan_f :: "nat \<Rightarrow> string \<Rightarrow> real scanres" where
  "scan_f w s =
     (case dropWhile isspace s of
        [] \<Rightarrow> InputFailure
      | c # cs \<Rightarrow>
          (let f = field w (c # cs);
               sg = (if is_sign c then 1 else 0);
               ip = takeWhile isdigit (drop sg f);
               r1 = drop (sg + length ip) f;
               dot = (case r1 of [] \<Rightarrow> 0 | d # _ \<Rightarrow> if d = CHR ''.'' then 1 else 0);
               fp = (if dot = 1 then takeWhile isdigit (drop 1 r1) else []);
               m = real (digits_val (ip @ fp)) / 10 ^ length fp
           in if ip = [] \<and> fp = [] then MatchFailure
              else Scanned (if c = CHR ''-'' then - m else m)
                     (drop (sg + length ip + dot + length fp) (c # cs))))"

datatype sval = UVal "32 word" | FVal real

text \<open>
  Running the directives over the input.  The result is the list of values assigned so
  far, in the order of the conversions, and whether the run stopped on an input failure.
\<close>

fun run_directives :: "directive list \<Rightarrow> string \<Rightarrow> sval list \<Rightarrow> sval list \<times> bool" where
  "run_directives [] s acc = (acc, False)"
| "run_directives (WS # ds) s acc = run_directives ds (dropWhile isspace s) acc"
| "run_directives (Lit c # ds) s acc =
     (case s of
        [] \<Rightarrow> (acc, True)
      | x # xs \<Rightarrow> if x = c then run_directives ds xs acc else (acc, False))"
| "run_directives (Conv skip w ConvU # ds) s acc =
     (case scan_u w s of
        Scanned v r \<Rightarrow> run_directives ds r (if skip then acc else acc @ [UVal v])
      | MatchFailure \<Rightarrow> (acc, False)
      | InputFailure \<Rightarrow> (acc, True))"
| "run_directives (Conv skip w ConvF # ds) s acc =
     (case scan_f w s of
        Scanned v r \<Rightarrow> run_directives ds r (if skip then acc else acc @ [FVal v])
      | MatchFailure \<Rightarrow> (acc, False)
      | InputFailure \<Rightarrow> (acc, True))"

text \<open>
  \<^verbatim>\<open>sscanf\<close> returns the number of assignments, or \<^verbatim>\<open>EOF\<close> (-1) when an input failure
  occurs before the first assignment.
\<close>

definition sscanf :: "string \<Rightarrow> string \<Rightarrow> int \<times> sval list" where
  "sscanf buf fmt =
     (case run_directives (parse_fmt Normal fmt) buf [] of
        (vals, eof) \<Rightarrow> (if eof \<and> vals = [] then - 1 else int (length vals), vals))"

section \<open>Modem error codes\<close>

datatype CME_Error =
    NONE
  | FIX
  | SESSION_IS_ONGOING
  | SESSION_NOT_ACTIVE
  | OPERATION_TIMEOUT
  | NO_FIX
  | GNSS_IS_WORKING
  | UNKNOWN_ERROR
  | UNDEFINED

text \<open>The enumerators' values, as QuectelGnssRK.h declares them.\<close>

fun CME_value :: "CME_Error \<Rightarrow> nat" where
  "CME_value NONE = 0"
| "CME_value FIX = 1"
| "CME_value SESSION_IS_ONGOING = 504"
| "CME_value SESSION_NOT_ACTIVE = 505"
| "CME_value OPERATION_TIMEOUT = 506"
| "CME_value NO_FIX = 516"
| "CME_value GNSS_IS_WORKING = 522"
| "CME_value UNKNOWN_ERROR = 549"
| "CME_value UNDEFINED = 999"

text \<open>\<^verbatim>\<open>static_cast<CME_Error>(error_code)\<close> on the codes the switch lets through.\<close>

definition static_cast_CME :: "32 word \<Rightarrow> CME_Error" where
  "static_cast_CME code =
     (if code = 504 then SESSION_IS_ONGOING
      else if code = 505 then SESSION_NOT_ACTIVE
      else if code = 506 then OPERATION_TIMEOUT
      else if code = 516 then NO_FIX
      else if code = 522 then GNSS_IS_WORKING
      else if code = 549 then UNKNOWN_ERROR
      else UNDEFINED)"

definition uval :: "sval list \<Rightarrow> nat \<Rightarrow> 32 word \<Rightarrow> 32 word" where
  "uval vals i old = (if i < length vals then (case vals ! i of UVal v \<Rightarrow> v | FVal _ \<Rightarrow> old) else old)"

definition fval :: "sval list \<Rightarrow> nat \<Rightarrow> real \<Rightarrow> real" where
  "fval vals i old = (if i < length vals then (case vals ! i of FVal v \<Rightarrow> v | UVal _ \<Rightarrow> old) else old)"

text \<open>
  \<^verbatim>\<open>parseCmeError\<close>: \<^verbatim>\<open>error_code\<close> starts at 0 and is overwritten only when the
  conversion assigns it.
\<close>

definition parseCmeError :: "string \<Rightarrow> CME_Error" where
  "parseCmeError buf =
     (case sscanf buf '' +CME ERROR: %u'' of
        (nargs, vals) \<Rightarrow>
          (let error_code = uval vals 0 0 in
           if 0 = nargs then NONE
           else if error_code = 504 \<or> error_code = 505 \<or> error_code = 506
                   \<or> error_code = 516 \<or> error_code = 522 \<or> error_code = 549
                then static_cast_CME error_code
                else UNDEFINED))"

text \<open>
  The error line in the spec's words, without \<^verbatim>\<open>sscanf\<close>: a fixed textual error
  prefix followed by a numeric code.  \<open>match_text\<close> compares a text with the start of a
  line: the line carries it (and goes on with a rest), differs from it at some
  character, or ends inside it.  \<open>spec_cme_marker\<close> looks for the prefix, that is the text
  \<^verbatim>\<open>+CME\<close> and the text \<^verbatim>\<open>ERROR:\<close>, with white space skipped before, between and after
  them.  \<open>spec_decimal_code\<close> reads the numeric code a rest starts with: an optional sign
  and decimal digits, as an \<^verbatim>\<open>unsigned int\<close>.
\<close>

datatype marker_match = Carried string | Differs | Ended

fun match_text :: "string \<Rightarrow> string \<Rightarrow> marker_match" where
  "match_text [] s = Carried s"
| "match_text (c # cs) [] = Ended"
| "match_text (c # cs) (x # xs) = (if x = c then match_text cs xs else Differs)"

definition spec_cme_marker :: "string \<Rightarrow> marker_match" where
  "spec_cme_marker buf =
     (case match_text ''+CME'' (dropWhile isspace buf) of
        Carried r \<Rightarrow>
          (case match_text ''ERROR:'' (dropWhile isspace r) of
             Carried r' \<Rightarrow> Carried (dropWhile isspace r')
           | Differs \<Rightarrow> Differs
           | Ended \<Rightarrow> Ended)
      | Differs \<Rightarrow> Differs
      | Ended \<Rightarrow> Ended)"

definition spec_decimal_code :: "string \<Rightarrow> (32 word) option" where
  "spec_decimal_code r =
     (case r of
        [] \<Rightarrow> None
      | c # cs \<Rightarrow>
          (let ds = takeWhile isdigit (if is_sign c then cs else c # cs)
           in if ds = [] then None else Some (strtoul (c = CHR ''-'') ds)))"

section \<open>The data model of QuectelGnssRK.h\<close>

text \<open>
  \<^verbatim>\<open>LocationPoint\<close>.  The member \<^verbatim>\<open>fix\<close> is \<open>fix_p\<close> here.  \<^verbatim>\<open>time_t\<close> and
  \<^verbatim>\<open>time32_t\<close> are integers.
\<close>

record LocationPoint =
  fix_p :: "32 word"
  epochTime :: int
  systemTime :: int
  latitude :: real
  longitude :: real
  altitude :: real
  speed :: real
  heading :: real
  horizontalAccuracy :: real
  horizontalDop :: real
  verticalAccuracy :: real
  verticalDop :: real
  timeToFirstFix :: real
  satsInUse :: "32 word"

text \<open>\<^verbatim>\<open>memset(&point, 0, sizeof(LocationPoint))\<close>.\<close>

definition zero_point :: LocationPoint where
  "zero_point =
     \<lparr>fix_p = 0, epochTime = 0, systemTime = 0, latitude = 0, longitude = 0, altitude = 0,
      speed = 0, heading = 0, horizontalAccuracy = 0, horizontalDop = 0,
      verticalAccuracy = 0, verticalDop = 0, timeToFirstFix = 0, satsInUse = 0\<rparr>"

text \<open>
  \<^verbatim>\<open>QlocContext\<close>: the parsed fields, and the members of \<^verbatim>\<open>timeinfo\<close> (a
  \<^verbatim>\<open>std::tm\<close>) that \<^verbatim>\<open>parseQloc\<close> writes, as \<open>timeinfo_tm_year\<close> and so on.  The
  members \<^verbatim>\<open>latitude\<close>, \<^verbatim>\<open>longitude\<close>, \<^verbatim>\<open>fix\<close> and \<^verbatim>\<open>altitude\<close> carry the suffix
  \<open>_c\<close>, since \<^verbatim>\<open>LocationPoint\<close> has members of the same names.
\<close>

record QlocContext =
  tm_hour :: "32 word"
  tm_min :: "32 word"
  tm_sec :: "32 word"
  tm_day :: "32 word"
  tm_month :: "32 word"
  tm_year :: "32 word"
  latitude_c :: real
  longitude_c :: real
  fix_c :: "32 word"
  hdop :: real
  altitude_c :: real
  cogDegrees :: "32 word"
  cogMinutes :: "32 word"
  speedKmph :: real
  speedKnots :: real
  nsat :: "32 word"
  timeinfo_tm_year :: int
  timeinfo_tm_mon :: int
  timeinfo_tm_mday :: int
  timeinfo_tm_hour :: int
  timeinfo_tm_min :: int
  timeinfo_tm_sec :: int

definition zero_context :: QlocContext where
  "zero_context =
     \<lparr>tm_hour = 0, tm_min = 0, tm_sec = 0, tm_day = 0, tm_month = 0, tm_year = 0,
      latitude_c = 0, longitude_c = 0, fix_c = 0, hdop = 0, altitude_c = 0,
      cogDegrees = 0, cogMinutes = 0, speedKmph = 0, speedKnots = 0, nsat = 0,
      timeinfo_tm_year = 0, timeinfo_tm_mon = 0, timeinfo_tm_mday = 0,
      timeinfo_tm_hour = 0, timeinfo_tm_min = 0, timeinfo_tm_sec = 0\<rparr>"

record EpeContext =
  h_acc :: real
  v_acc :: real
  speed_acc :: real
  head_acc :: real

section \<open>Parsing the fix report\<close>

text \<open>
  \<^verbatim>\<open>std::mktime\<close> for a device whose local time is UTC: the days from 1970-01-01 to the
  civil date, with the month count carried into the year, times 86400, plus the time of
  day.  \<open>y\<close> counts from 1900 and \<open>mo\<close> from 0, as in \<^verbatim>\<open>std::tm\<close>.  That
  \<^verbatim>\<open>std::mktime\<close> also normalises the \<^verbatim>\<open>std::tm\<close> it is given is not modelled.
\<close>

definition days_from_civil :: "int \<Rightarrow> int \<Rightarrow> int \<Rightarrow> int" where
  "days_from_civil y m d =
     (let y' = (if m \<le> 2 then y - 1 else y);
          era = y' div 400;
          yoe = y' - era * 400;
          doy = (153 * (if 2 < m then m - 3 else m + 9) + 2) div 5 + d - 1;
          doe = yoe * 365 + yoe div 4 - yoe div 100 + doy
      in era * 146097 + doe - 719468)"

definition mktime :: "int \<Rightarrow> int \<Rightarrow> int \<Rightarrow> int \<Rightarrow> int \<Rightarrow> int \<Rightarrow> int" where
  "mktime y mo d h mi s =
     days_from_civil (1900 + y + mo div 12) (mo mod 12 + 1) d * 86400 + h * 3600 + mi * 60 + s"

text \<open>
  The sixteen assignments of the \<^verbatim>\<open>sscanf\<close> call in \<^verbatim>\<open>parseQloc\<close>, in the order of its
  arguments.  A member whose conversion was not reached keeps the value it had.
\<close>

definition store_qloc :: "sval list \<Rightarrow> QlocContext \<Rightarrow> QlocContext" where
  "store_qloc vals context =
     context\<lparr>tm_hour := uval vals 0 (tm_hour context),
             tm_min := uval vals 1 (tm_min context),
             tm_sec := uval vals 2 (tm_sec context),
             latitude_c := fval vals 3 (latitude_c context),
             longitude_c := fval vals 4 (longitude_c context),
             hdop := fval vals 5 (hdop context),
             altitude_c := fval vals 6 (altitude_c context),
             fix_c := uval vals 7 (fix_c context),
             cogDegrees := uval vals 8 (cogDegrees context),
             cogMinutes := uval vals 9 (cogMinutes context),
             speedKmph := fval vals 10 (speedKmph context),
             speedKnots := fval vals 11 (speedKnots context),
             tm_day := uval vals 12 (tm_day context),
             tm_month := uval vals 13 (tm_month context),
             tm_year := uval vals 14 (tm_year context),
             nsat := uval vals 15 (nsat context)\<rparr>"

text \<open>
  \<^verbatim>\<open>parseQloc\<close> returns its \<^verbatim>\<open>int\<close> result with the updated context and point.  Its
  two blocks of assignments are \<open>set_timeinfo\<close> and \<open>set_point\<close>.  The unsigned members
  are converted to \<^verbatim>\<open>int\<close> (\<open>sint\<close>) when stored into \<^verbatim>\<open>timeinfo\<close> and to
  \<^verbatim>\<open>float\<close> (\<open>real (unat _)\<close>) for the heading.
\<close>

definition set_timeinfo :: "QlocContext \<Rightarrow> QlocContext" where
  "set_timeinfo context =
     context\<lparr>timeinfo_tm_year := sint (tm_year context + 2000 - 1900),
             timeinfo_tm_mon := sint (tm_month context - 1),
             timeinfo_tm_mday := sint (tm_day context),
             timeinfo_tm_hour := sint (tm_hour context),
             timeinfo_tm_min := sint (tm_min context),
             timeinfo_tm_sec := sint (tm_sec context)\<rparr>"

definition set_point :: "QlocContext \<Rightarrow> LocationPoint \<Rightarrow> LocationPoint" where
  "set_point context point =
     point\<lparr>epochTime := mktime (timeinfo_tm_year context) (timeinfo_tm_mon context)
                           (timeinfo_tm_mday context) (timeinfo_tm_hour context)
                           (timeinfo_tm_min context) (timeinfo_tm_sec context),
           fix_p := fix_c context,
           latitude := latitude_c context,
           longitude := longitude_c context,
           altitude := altitude_c context,
           speed := speedKmph context * 1000,
           heading := real (unat (cogDegrees context)) + real (unat (cogMinutes context)) / 60,
           horizontalDop := hdop context,
           satsInUse := nsat context\<rparr>"

definition parseQloc :: "string \<Rightarrow> QlocContext \<Rightarrow> LocationPoint \<Rightarrow> int \<times> QlocContext \<times> LocationPoint" where
  \<open>parseQloc buf context point =
     (case sscanf buf
        '' +QGPSLOC: %02u%02u%02u.%*03u,%lf,%lf,%f,%f,%u,%03u.%02u,%f,%f,%02u%02u%02u,%u'' of
        (nargs, vals) \<Rightarrow>
          (if 0 = nargs then (- 1, store_qloc vals context, point)
           else (0, set_timeinfo (store_qloc vals context),
                    set_point (set_timeinfo (store_qloc vals context)) point)))\<close>

definition parseQlocResponse :: "string \<Rightarrow> QlocContext \<Rightarrow> LocationPoint \<Rightarrow> CME_Error \<times> QlocContext \<times> LocationPoint" where
  "parseQlocResponse buf context point =
     (let result = parseCmeError buf in
      if NO_FIX = result then (result, context, point\<lparr>fix_p := 0\<rparr>)
      else if NONE \<noteq> result then (NONE, context, point)
      else
        (case parseQloc buf context point of
           (locResult, c, p) \<Rightarrow> (if locResult = 0 then FIX else UNKNOWN_ERROR, c, p)))"

definition store_epe :: "sval list \<Rightarrow> EpeContext \<Rightarrow> EpeContext" where
  "store_epe vals context =
     context\<lparr>h_acc := fval vals 0 (h_acc context),
             v_acc := fval vals 1 (v_acc context),
             speed_acc := fval vals 2 (speed_acc context),
             head_acc := fval vals 3 (head_acc context)\<rparr>"

definition parseEpeResponse :: "string \<Rightarrow> EpeContext \<Rightarrow> LocationPoint \<Rightarrow> EpeContext \<times> LocationPoint" where
  \<open>parseEpeResponse buf context point =
     (let result = parseCmeError buf in
      if NONE \<noteq> result then (context, point)
      else
        (case sscanf buf '' +QGPSCFG: "estimation_error",%f,%f,%f,%f'' of
           (nargs, vals) \<Rightarrow>
             (if nargs \<noteq> 0
              then (store_epe vals context,
                    point\<lparr>horizontalAccuracy := h_acc (store_epe vals context),
                          verticalAccuracy := v_acc (store_epe vals context)\<rparr>)
              else (store_epe vals context, point))))\<close>

section \<open>The engine\<close>

datatype LocationResults = Unavailable | Unsupported | Idle | Acquiring | Pending | Fixed | TimedOut

text \<open>
  \<^verbatim>\<open>LocationCommand::None\<close> is \<open>CmdNone\<close>; the enumerators \<^verbatim>\<open>Unavailable\<close> and
  \<^verbatim>\<open>Unsupported\<close> of \<^verbatim>\<open>_ModemType\<close> are \<open>MT_Unavailable\<close> and \<open>MT_Unsupported\<close>.
\<close>

datatype LocationCommand = CmdNone | Acquire | Exit

datatype ModemType = MT_Unavailable | MT_Unsupported | BG95_M5 | EG91

text \<open>
  \<^verbatim>\<open>LocationConstellation\<close>.  The enumerators are bit masks of an unsigned integer.
\<close>

definition LOCATION_CONST_GPS_ONLY :: "32 word" where
  "LOCATION_CONST_GPS_ONLY = 0"

definition LOCATION_CONST_GPS_GLONASS :: "32 word" where
  "LOCATION_CONST_GPS_GLONASS = push_bit 0 1"

definition LOCATION_CONST_GPS_BEIDOU :: "32 word" where
  "LOCATION_CONST_GPS_BEIDOU = push_bit 1 1"

definition LOCATION_CONST_GPS_GALILEO :: "32 word" where
  "LOCATION_CONST_GPS_GALILEO = push_bit 2 1"

definition LOCATION_CONST_GPS_QZSS :: "32 word" where
  "LOCATION_CONST_GPS_QZSS = push_bit 3 1"

text \<open>
  \<^verbatim>\<open>LocationConfiguration\<close>, its members named by their accessors.  A pin is a number;
  \<open>None\<close> is \<^verbatim>\<open>PIN_INVALID\<close>.
\<close>

record LocationConfiguration =
  constellations :: "32 word"
  enableAntennaPower :: "nat option"
  hdopThreshold :: int
  haccThreshold :: real
  maximumFixTime :: "32 word"

text \<open>
  \<^verbatim>\<open>LocationCommandContext\<close>.  \<open>doneCallback\<close> and \<open>point\<close> say whether the callback
  and the pointer are set (not \<^verbatim>\<open>nullptr\<close>).
\<close>

record LocationCommandContext =
  command :: LocationCommand
  sendResponse :: bool
  doneCallback :: bool
  publish :: bool
  point :: bool

text \<open>
  The JSON writer, as the sequence of its calls: \<^verbatim>\<open>beginObject\<close>, \<^verbatim>\<open>endObject\<close>,
  \<^verbatim>\<open>name\<close>, and \<^verbatim>\<open>value\<close> at an \<^verbatim>\<open>int\<close>, an \<^verbatim>\<open>unsigned\<close>, a string, or a
  \<^verbatim>\<open>double\<close> with its number of decimals.
\<close>

datatype json_token =
    BeginObject
  | EndObject
  | Name string
  | ValInt int
  | ValUInt "32 word"
  | ValString string
  | ValDouble real nat

type_synonym JSONWriter = "json_token list"

text \<open>
  The members of the \<^verbatim>\<open>QuectelGnssRK\<close> object (without the leading underscore), and
  after them what the object acts on: \<open>commands\<close> are the AT commands sent with
  \<^verbatim>\<open>Cellular.command\<close>, oldest first; \<open>antennaLevel\<close> is the level last written to the
  antenna power pin (\<open>True\<close> is \<^verbatim>\<open>HIGH\<close>); \<open>callerPoint\<close> is the object a command's
  \<^verbatim>\<open>point\<close> refers to; \<open>callbacks\<close> are the calls of \<^verbatim>\<open>doneCallback\<close>; \<open>published\<close> are
  the payloads handed to \<^verbatim>\<open>Particle.publish\<close>.  Each queue holds at most one item.
\<close>

record QuectelGnssRK =
  commandQueue :: "LocationCommandContext list"
  responseQueue :: "LocationResults list"
  acquiring :: bool
  locBuffer :: string
  epeBuffer :: string
  qlocContext :: QlocContext
  epeContext :: EpeContext
  gnssStarted :: bool
  timeToFirstFixMs :: "32 word"
  lastLocation :: LocationPoint
  lastResults :: LocationResults
  conf :: LocationConfiguration
  antennaPowerPin :: "nat option"
  modemType :: ModemType
  reqid :: "32 word"
  commands :: "string list"
  antennaLevel :: bool
  callerPoint :: LocationPoint
  callbacks :: "(LocationResults \<times> LocationPoint) list"
  published :: "JSONWriter list"

definition LOCATION_REQUIRED_SETTLING_COUNT :: int where
  "LOCATION_REQUIRED_SETTLING_COUNT = 2"

definition Cellular_command :: "string \<Rightarrow> QuectelGnssRK \<Rightarrow> QuectelGnssRK" where
  "Cellular_command cmd s = s\<lparr>commands := commands s @ [cmd]\<rparr>"

definition os_queue_put :: "'a \<Rightarrow> 'a list \<Rightarrow> 'a list" where
  "os_queue_put x q = (if length q < 1 then q @ [x] else q)"

definition modemNotDetected :: "QuectelGnssRK \<Rightarrow> bool" where
  "modemNotDetected s = (MT_Unavailable = modemType s)"

definition concurrentGnssAndCellularSupported :: "QuectelGnssRK \<Rightarrow> bool" where
  "concurrentGnssAndCellularSupported s = (if BG95_M5 = modemType s then False else True)"

definition getStatus :: "QuectelGnssRK \<Rightarrow> LocationResults" where
  "getStatus s = (if acquiring s then Acquiring else Idle)"

definition getLastResults :: "QuectelGnssRK \<Rightarrow> LocationResults" where
  "getLastResults s = lastResults s"

definition getHasFix :: "QuectelGnssRK \<Rightarrow> bool" where
  "getHasFix s = (lastResults s = Fixed)"

definition setAntennaPower :: "QuectelGnssRK \<Rightarrow> QuectelGnssRK" where
  "setAntennaPower s = (if None \<noteq> antennaPowerPin s then s\<lparr>antennaLevel := True\<rparr> else s)"

definition clearAntennaPower :: "QuectelGnssRK \<Rightarrow> QuectelGnssRK" where
  "clearAntennaPower s = (if None \<noteq> antennaPowerPin s then s\<lparr>antennaLevel := False\<rparr> else s)"

section \<open>Constellation selection\<close>

text \<open>An integer used as a condition is true when it is not zero.\<close>

definition nonzero :: "32 word \<Rightarrow> bool" where
  "nonzero w = (w \<noteq> 0)"

text \<open>\<^verbatim>\<open>sprintf\<close> with \<^verbatim>\<open>%d\<close>.\<close>

fun dec :: "nat \<Rightarrow> string" where
  "dec n = (if n < 10 then [''0123456789'' ! n]
            else dec (n div 10) @ [''0123456789'' ! (n mod 10)])"

declare dec.simps [simp del]

definition sprintf_d :: "int \<Rightarrow> string" where
  "sprintf_d n = (if n < 0 then CHR ''-'' # dec (nat (- n)) else dec (nat n))"

definition configNumber_of :: "ModemType \<Rightarrow> 32 word \<Rightarrow> int" where
  "configNumber_of mt flags =
     (if BG95_M5 = mt then
        (if nonzero (flags AND LOCATION_CONST_GPS_ONLY) \<or> nonzero (flags AND LOCATION_CONST_GPS_GLONASS)
         then 1
         else if nonzero (flags AND LOCATION_CONST_GPS_BEIDOU) then 2
         else if nonzero (flags AND LOCATION_CONST_GPS_GALILEO) then 3
         else if nonzero (flags AND LOCATION_CONST_GPS_QZSS) then 4
         else - 1)
      else if EG91 = mt then
        (if nonzero (flags AND LOCATION_CONST_GPS_ONLY) then 0
         else if nonzero (flags AND LOCATION_CONST_GPS_GLONASS) then 4
         else if nonzero (flags AND LOCATION_CONST_GPS_BEIDOU) then 7
         else if nonzero (flags AND LOCATION_CONST_GPS_GALILEO) then 6
         else - 1)
      else - 1)"

text \<open>
  \<^verbatim>\<open>setConstellation\<close>: \<open>configNumber_of\<close> is the chain of conditions that sets
  \<^verbatim>\<open>configNumber\<close>, which starts at -1.  The function always returns 0; the model
  returns the new state.
\<close>

definition setConstellation :: "32 word \<Rightarrow> QuectelGnssRK \<Rightarrow> QuectelGnssRK" where
  \<open>setConstellation flags s =
     (let configNumber = configNumber_of (modemType s) flags in
      if configNumber \<ge> 0
      then Cellular_command (''AT+QGPSCFG="gnssconfig",'' @ sprintf_d configNumber) s
      else s)\<close>

section \<open>The acquisition worker\<close>

text \<open>
  What the worker reads from outside during one pass of the poll loop: \<open>ob_power\<close> is
  \<^verbatim>\<open>isModemOn()\<close> in the loop condition, \<open>ob_now\<close> is \<^verbatim>\<open>System.millis()\<close> at the top of
  the body, \<open>ob_loc\<close> is the content of \<^verbatim>\<open>_locBuffer\<close> after the \<^verbatim>\<open>AT+QGPSLOC=2\<close>
  command and its callback, \<open>ob_time\<close> is \<^verbatim>\<open>Time.now()\<close>, \<open>ob_millis\<close> is
  \<^verbatim>\<open>System.millis()\<close> where the time to first fix is taken, and \<open>ob_epe\<close> is the
  content of \<^verbatim>\<open>_epeBuffer\<close> after the estimation-error command.
\<close>

record poll_obs =
  ob_power :: bool
  ob_now :: "64 word"
  ob_loc :: string
  ob_time :: int
  ob_millis :: "64 word"
  ob_epe :: string

text \<open>The local variables of the \<^verbatim>\<open>Acquire\<close> case that the loop changes.\<close>

record acq_locals =
  fixCount :: int
  response :: LocationResults
  power :: bool

text \<open>The block run when \<^verbatim>\<open>gnssStarted\<close> is false.\<close>

definition start_gnss :: "QuectelGnssRK \<Rightarrow> QuectelGnssRK" where
  \<open>start_gnss s =
     (let s1 = Cellular_command ''AT+QGPS=1'' (setAntennaPower s);
          s2 = (if BG95_M5 = modemType s1
                then Cellular_command ''AT+QGPSCFG="nmea_epe",1'' s1 else s1);
          s3 = setConstellation (constellations (conf s2)) s2
      in s3\<lparr>gnssStarted := True, timeToFirstFixMs := 0\<rparr>)\<close>

text \<open>The query of the fix report and its parse, at the top of the loop body.\<close>

definition poll_query :: "poll_obs \<Rightarrow> QuectelGnssRK \<Rightarrow> CME_Error \<times> QuectelGnssRK" where
  "poll_query ob s =
     (let s1 = (Cellular_command ''AT+QGPSLOC=2'' s)\<lparr>locBuffer := ob_loc ob\<rparr> in
      case parseQlocResponse (locBuffer s1) (qlocContext s1) (lastLocation s1) of
        (ret, c, p) \<Rightarrow> (ret, s1\<lparr>qlocContext := c, lastLocation := p\<rparr>))"

text \<open>The estimation-error query of the BG95.\<close>

definition poll_epe :: "poll_obs \<Rightarrow> QuectelGnssRK \<Rightarrow> QuectelGnssRK" where
  \<open>poll_epe ob s =
     (let s1 = (Cellular_command ''AT+QGPSCFG="estimation_error"'' s)\<lparr>epeBuffer := ob_epe ob\<rparr> in
      case parseEpeResponse (epeBuffer s1) (epeContext s1) (lastLocation s1) of
        (c, p) \<Rightarrow> s1\<lparr>epeContext := c, lastLocation := p\<rparr>)\<close>

text \<open>
  The branch taken when the parse returns \<^verbatim>\<open>CME_Error::FIX\<close>, up to the test of the
  settling count.
\<close>

definition poll_fix :: "64 word \<Rightarrow> poll_obs \<Rightarrow> QuectelGnssRK \<Rightarrow> QuectelGnssRK" where
  "poll_fix start ob s =
     (let s1 = s\<lparr>lastLocation := (lastLocation s)\<lparr>systemTime := ob_time ob\<rparr>\<rparr>;
          s2 = (if 0 = timeToFirstFixMs s1
                then s1\<lparr>timeToFirstFixMs := ucast (ob_millis ob - start)\<rparr> else s1)
      in if BG95_M5 = modemType s2 then poll_epe ob s2 else s2)"

definition settled :: "int \<Rightarrow> QuectelGnssRK \<Rightarrow> bool" where
  "settled n s =
     (LOCATION_REQUIRED_SETTLING_COUNT = n
      \<and> horizontalDop (lastLocation s) \<le> real_of_int (hdopThreshold (conf s))
      \<and> horizontalAccuracy (lastLocation s) \<le> haccThreshold (conf s))"

text \<open>
  The poll loop.  Each pass consumes one observation; \<open>None\<close> says the observations ran
  out while the loop was still running.  The loop ends when the modem is seen off, when
  the time is up, or with \<^verbatim>\<open>Fixed\<close>.
\<close>

fun poll_loop :: "64 word \<Rightarrow> 64 word \<Rightarrow> poll_obs list \<Rightarrow> QuectelGnssRK \<Rightarrow> acq_locals
    \<Rightarrow> (QuectelGnssRK \<times> acq_locals) option" where
  "poll_loop start maxTime [] s l = None"
| "poll_loop start maxTime (ob # obs) s l =
     (if \<not> ob_power ob then Some (s, l\<lparr>power := False\<rparr>)
      else if ob_now ob - start \<ge> maxTime then Some (s, l\<lparr>power := True\<rparr>)
      else
        (case poll_query ob s of
           (ret, s1) \<Rightarrow>
             if FIX = ret then
               (if settled (fixCount l + 1) (poll_fix start ob s1)
                then Some (poll_fix start ob s1,
                           l\<lparr>fixCount := fixCount l + 1, response := Fixed, power := True\<rparr>)
                else poll_loop start maxTime obs (poll_fix start ob s1)
                       (l\<lparr>fixCount := fixCount l + 1, power := True\<rparr>))
             else poll_loop start maxTime obs s1 (l\<lparr>power := True\<rparr>)))"

text \<open>What follows the loop, up to the end of the \<^verbatim>\<open>Acquire\<close> case and its scope guard.\<close>

definition stop_gnss :: "QuectelGnssRK \<Rightarrow> QuectelGnssRK" where
  "stop_gnss s =
     (if \<not> concurrentGnssAndCellularSupported s
      then (clearAntennaPower (Cellular_command ''AT+QGPSEND'' s))\<lparr>gnssStarted := False\<rparr>
      else s)"

definition final_response :: "acq_locals \<Rightarrow> LocationResults" where
  "final_response l = (if \<not> power l \<and> Fixed \<noteq> response l then Unavailable else response l)"

definition deliver :: "LocationCommandContext \<Rightarrow> LocationResults \<Rightarrow> QuectelGnssRK \<Rightarrow> QuectelGnssRK" where
  "deliver event r s =
     (let s1 = (if 0 \<noteq> timeToFirstFixMs s
                then s\<lparr>lastLocation := (lastLocation s)\<lparr>timeToFirstFix := real (unat (timeToFirstFixMs s)) / 1000\<rparr>\<rparr>
                else s);
          s2 = (if point event then s1\<lparr>callerPoint := lastLocation s1\<rparr> else s1);
          s3 = s2\<lparr>lastResults := r\<rparr>;
          s4 = (if sendResponse event then s3\<lparr>responseQueue := os_queue_put r (responseQueue s3)\<rparr>
                else if doneCallback event then s3\<lparr>callbacks := callbacks s3 @ [(r, lastLocation s3)]\<rparr>
                else s3)
      in s4\<lparr>acquiring := False\<rparr>)"

text \<open>
  The \<^verbatim>\<open>Acquire\<close> case of \<^verbatim>\<open>threadLoop\<close>, for the command \<open>event\<close>; \<open>start\<close> is
  \<^verbatim>\<open>System.millis()\<close> before the loop.
\<close>

definition threadLoop_Acquire :: "LocationCommandContext \<Rightarrow> 64 word \<Rightarrow> poll_obs list \<Rightarrow> QuectelGnssRK
    \<Rightarrow> QuectelGnssRK option" where
  "threadLoop_Acquire event start obs s =
     (let s1 = s\<lparr>acquiring := True, lastLocation := zero_point\<rparr>;
          s2 = (if \<not> gnssStarted s1 then start_gnss s1 else s1);
          maxTime = ucast (maximumFixTime (conf s2)) * 1000
      in case poll_loop start maxTime obs s2 \<lparr>fixCount = 0, response = TimedOut, power = False\<rparr> of
           None \<Rightarrow> None
         | Some (s3, l) \<Rightarrow> Some (deliver event (final_response l) (stop_gnss s3)))"


section \<open>The published payload\<close>

definition toJsonWriter :: "LocationPoint \<Rightarrow> JSONWriter \<Rightarrow> bool \<Rightarrow> JSONWriter" where
  "toJsonWriter p writer wrapInObject =
     (let w1 = (if wrapInObject then writer @ [BeginObject] else writer);
          w2 = (if 0 = fix_p p then w1 @ [Name ''lck'', ValInt 0]
                else
                  (let a = w1 @ [Name ''lck'', ValInt 1,
                                 Name ''time'', ValUInt (word_of_int (epochTime p)),
                                 Name ''lat'', ValDouble (latitude p) 8,
                                 Name ''lon'', ValDouble (longitude p) 8,
                                 Name ''alt'', ValDouble (altitude p) 3,
                                 Name ''hd'', ValDouble (heading p) 2,
                                 Name ''spd'', ValDouble (speed p) 2,
                                 Name ''hdop'', ValDouble (horizontalDop p) 1];
                       b = (if 0 < horizontalAccuracy p
                            then a @ [Name ''h_acc'', ValDouble (horizontalAccuracy p) 3] else a);
                       c = (if 0 < verticalAccuracy p
                            then b @ [Name ''v_acc'', ValDouble (verticalAccuracy p) 3] else b)
                   in c @ [Name ''nsat'', ValUInt (satsInUse p),
                           Name ''ttff'', ValDouble (timeToFirstFix p) 1]))
      in if wrapInObject then w2 @ [EndObject] else w2)"

definition buildPublish :: "LocationPoint \<Rightarrow> 32 word \<Rightarrow> JSONWriter" where
  "buildPublish p seq =
     (let w1 = [BeginObject, Name ''cmd'', ValString ''loc''];
          w2 = (if systemTime p \<noteq> 0
                then w1 @ [Name ''time'', ValUInt (word_of_int (systemTime p))] else w1);
          w3 = toJsonWriter p (w2 @ [Name ''loc'']) True
      in w3 @ [Name ''req_id'', ValUInt seq, EndObject])"

section \<open>The public entry points\<close>

text \<open>The modem identity \<^verbatim>\<open>celldev.dev\<close>: 0 while it is not cached, or a device.\<close>

datatype CellularDev =
    DEV_NOT_CACHED
  | DEV_QUECTEL_BG95_M5
  | DEV_QUECTEL_BG95_S5
  | DEV_QUECTEL_EG91_EX
  | DEV_QUECTEL_EG91_NAX
  | DEV_OTHER nat

text \<open>
  What a call reads from outside: \<open>env_on\<close> is \<^verbatim>\<open>isModemOn()\<close> at the entry and
  \<open>env_on_detect\<close> the same inside \<^verbatim>\<open>detectModemType\<close>; \<open>env_dev\<close> is the modem
  identity; \<open>env_response\<close> is what the response queue delivers within the wait, if
  anything, and \<open>env_point\<close> the caller's point as the worker left it by then;
  \<open>env_connected\<close> is \<^verbatim>\<open>Particle.connected()\<close> and \<open>env_published\<close> the
  result of \<^verbatim>\<open>Particle.publish\<close>.
\<close>

record call_env =
  env_on :: bool
  env_on_detect :: bool
  env_dev :: CellularDev
  env_response :: "LocationResults option"
  env_point :: LocationPoint
  env_connected :: bool
  env_published :: bool

definition detectModemType :: "call_env \<Rightarrow> QuectelGnssRK \<Rightarrow> bool \<times> QuectelGnssRK" where
  "detectModemType env s =
     (if modemNotDetected s \<and> env_on_detect env then
        (case env_dev env of
           DEV_NOT_CACHED \<Rightarrow> (False, s)
         | DEV_QUECTEL_BG95_M5 \<Rightarrow> (True, s\<lparr>modemType := BG95_M5\<rparr>)
         | DEV_QUECTEL_BG95_S5 \<Rightarrow> (True, s\<lparr>modemType := BG95_M5\<rparr>)
         | DEV_QUECTEL_EG91_EX \<Rightarrow> (True, s\<lparr>modemType := EG91\<rparr>)
         | DEV_QUECTEL_EG91_NAX \<Rightarrow> (True, s\<lparr>modemType := EG91\<rparr>)
         | DEV_OTHER _ \<Rightarrow> (False, s\<lparr>modemType := MT_Unsupported\<rparr>))
      else if \<not> modemNotDetected s \<and> MT_Unsupported \<noteq> modemType s then (True, s)
      else (False, s))"

definition waitOnResponseEvent :: "call_env \<Rightarrow> LocationResults" where
  "waitOnResponseEvent env = (case env_response env of None \<Rightarrow> Idle | Some r \<Rightarrow> r)"

text \<open>
  \<^verbatim>\<open>getLocation\<close>, as the steps of the calling thread.  The caller's \<^verbatim>\<open>point\<close> is
  \<open>callerPoint\<close>.  While the caller waits the worker runs; the model takes the outcome
  of the wait from \<open>env\<close>.
\<close>

definition getLocation :: "call_env \<Rightarrow> bool \<Rightarrow> QuectelGnssRK \<Rightarrow> LocationResults \<times> QuectelGnssRK" where
  "getLocation env pub s0 =
     (let s = s0\<lparr>callerPoint := zero_point\<rparr> in
      if \<not> env_on env then (Unavailable, s\<lparr>lastResults := Unavailable\<rparr>)
      else
        (case (if modemNotDetected s then detectModemType env s else (True, s)) of
           (detected, s1) \<Rightarrow>
             if \<not> detected then (Unsupported, s1\<lparr>lastResults := Unsupported\<rparr>)
             else if acquiring s1 then (Pending, s1\<lparr>lastResults := Pending\<rparr>)
             else
               (let event = \<lparr>command = Acquire, sendResponse = True, doneCallback = False,
                             publish = False, point = True\<rparr>;
                    s2 = s1\<lparr>commandQueue := os_queue_put event (commandQueue s1),
                            callerPoint := env_point env\<rparr>;
                    result = waitOnResponseEvent env
                in if pub \<and> Fixed = result \<and> env_connected env
                   then (result,
                         (if env_published env then s2\<lparr>reqid := reqid s2 + 1\<rparr> else s2)
                           \<lparr>published := published s2 @ [buildPublish (callerPoint s2) (reqid s2)]\<rparr>)
                   else (result, s2))))"

text \<open>\<^verbatim>\<open>getLocationAsync\<close>; \<open>callback\<close> says whether the callback given is set.\<close>

definition getLocationAsync :: "call_env \<Rightarrow> bool \<Rightarrow> QuectelGnssRK \<Rightarrow> LocationResults \<times> QuectelGnssRK" where
  "getLocationAsync env callback s =
     (if \<not> env_on env then (Unavailable, s\<lparr>lastResults := Unavailable\<rparr>)
      else
        (case (if modemNotDetected s then detectModemType env s else (True, s)) of
           (detected, s1) \<Rightarrow>
             if \<not> detected then (Unsupported, s1\<lparr>lastResults := Unsupported\<rparr>)
             else if acquiring s1 then (Pending, s1\<lparr>lastResults := Pending\<rparr>)
             else
               (let event = \<lparr>command = Acquire, sendResponse = False, doneCallback = callback,
                             publish = False, point = False\<rparr>
                in (Acquiring, s1\<lparr>commandQueue := os_queue_put event (commandQueue s1)\<rparr>))))"

section \<open>The object after construction\<close>

text \<open>
  The default \<^verbatim>\<open>LocationConfiguration\<close> and the members of a new \<^verbatim>\<open>QuectelGnssRK\<close>, by
  their initialisers in QuectelGnssRK.h; the buffers start empty and nothing has been
  sent, called back or published.
\<close>

definition LocationConfiguration_new :: LocationConfiguration where
  "LocationConfiguration_new =
     \<lparr>constellations = LOCATION_CONST_GPS_ONLY, enableAntennaPower = None,
      hdopThreshold = 100, haccThreshold = 50, maximumFixTime = 90\<rparr>"

definition QuectelGnssRK_new :: QuectelGnssRK where
  "QuectelGnssRK_new =
     \<lparr>commandQueue = [], responseQueue = [], acquiring = False, locBuffer = [], epeBuffer = [],
      qlocContext = zero_context,
      epeContext = \<lparr>h_acc = 0, v_acc = 0, speed_acc = 0, head_acc = 0\<rparr>,
      gnssStarted = False, timeToFirstFixMs = 0, lastLocation = zero_point,
      lastResults = Unavailable, conf = LocationConfiguration_new, antennaPowerPin = None,
      modemType = MT_Unavailable, reqid = 1, commands = [], antennaLevel = False,
      callerPoint = zero_point, callbacks = [], published = []\<rparr>"

section \<open>Sample responses and observations\<close>

text \<open>
  Fix reports in the form of \<^verbatim>\<open>AT+QGPSLOC=2\<close>, of 2024-01-01 12:34:56 UTC: one with
  HDOP 1.2, course 123 degrees 30 minutes and speed 36.0 km/h, one that differs from it
  in its HDOP of 5.0 only, and the first cut off after the hour.
\<close>

definition report_good :: string where
  "report_good = ''+QGPSLOC: 123456.0,37.42241,-122.08407,1.2,10.0,3,123.30,36.0,19.4,010124,08''"

definition report_poor :: string where
  "report_poor = ''+QGPSLOC: 123456.0,37.42241,-122.08407,5.0,10.0,3,123.30,36.0,19.4,010124,08''"

definition report_cut :: string where
  "report_cut = ''+QGPSLOC: 12''"

text \<open>The context that parsing \<open>report_good\<close> leaves behind.\<close>

definition context_good :: QlocContext where
  "context_good =
     \<lparr>tm_hour = 12, tm_min = 34, tm_sec = 56, tm_day = 1, tm_month = 1, tm_year = 24,
      latitude_c = 3742241 / 100000, longitude_c = - (12208407 / 100000), fix_c = 3,
      hdop = 6 / 5, altitude_c = 10, cogDegrees = 123, cogMinutes = 30,
      speedKmph = 36, speedKnots = 97 / 5, nsat = 8,
      timeinfo_tm_year = 124, timeinfo_tm_mon = 0, timeinfo_tm_mday = 1,
      timeinfo_tm_hour = 12, timeinfo_tm_min = 34, timeinfo_tm_sec = 56\<rparr>"

text \<open>
  An observation of the poll loop at clock reading \<open>t\<close> with the modem on and \<open>line\<close>
  as the response to the fix query, and one with the modem off.
\<close>

definition observe :: "64 word \<Rightarrow> string \<Rightarrow> poll_obs" where
  "observe t line =
     \<lparr>ob_power = True, ob_now = t, ob_loc = line, ob_time = 1704112496, ob_millis = t + 500,
      ob_epe = []\<rparr>"

definition observe_off :: "64 word \<Rightarrow> poll_obs" where
  "observe_off t = (observe t [])\<lparr>ob_power := False\<rparr>"


text \<open>A synchronous request, as \<^verbatim>\<open>getLocation\<close> queues it.\<close>

definition sync_request :: LocationCommandContext where
  "sync_request =
     \<lparr>command = Acquire, sendResponse = True, doneCallback = False, publish = False,
      point = True\<rparr>"

section \<open>Modem error codes: results\<close>


lemma parse_fmt_cme:
  "parse_fmt Normal '' +CME ERROR: %u'' =
     [WS, Lit CHR ''+'', Lit CHR ''C'', Lit CHR ''M'', Lit CHR ''E'', WS,
      Lit CHR ''E'', Lit CHR ''R'', Lit CHR ''R'', Lit CHR ''O'', Lit CHR ''R'', Lit CHR '':'',
      WS, Conv False 0 ConvU]"
  by (simp add: isspace_def isdigit_def)

lemma sscanf_cme:
  "sscanf buf '' +CME ERROR: %u'' =
     (case run_directives
        [WS, Lit CHR ''+'', Lit CHR ''C'', Lit CHR ''M'', Lit CHR ''E'', WS,
         Lit CHR ''E'', Lit CHR ''R'', Lit CHR ''R'', Lit CHR ''O'', Lit CHR ''R'', Lit CHR '':'',
         WS, Conv False 0 ConvU] buf [] of
        (vals, eof) \<Rightarrow> (if eof \<and> vals = [] then - 1 else int (length vals), vals))"
  by (simp only: sscanf_def parse_fmt_cme)

lemma isdigit_not_isspace: "isdigit c \<Longrightarrow> \<not> isspace c"
  by (auto simp: isdigit_def isspace_def)

lemma isdigit_not_is_sign: "isdigit c \<Longrightarrow> \<not> is_sign c"
  by (auto simp: isdigit_def is_sign_def)

lemma takeWhile_digits:
  "list_all isdigit ds \<Longrightarrow> rest = [] \<or> \<not> isdigit (hd rest) \<Longrightarrow> takeWhile isdigit (ds @ rest) = ds"
  by (induction ds) (auto simp: takeWhile_eq_Nil_iff neq_Nil_conv)

lemma dropWhile_spaces:
  "list_all isspace ws \<Longrightarrow> \<not> isspace c \<Longrightarrow> dropWhile isspace (ws @ c # rest) = c # rest"
  by (induction ws) auto

lemma scan_u_digits:
  assumes "ds \<noteq> []" and "list_all isdigit ds" and "rest = [] \<or> \<not> isdigit (hd rest)"
    and "digits_val ds < 2 ^ 32"
  shows "scan_u 0 (ds @ rest) = Scanned (word_of_nat (digits_val ds)) rest"
proof -
  from assms(1) obtain d ds' where ds: "ds = d # ds'" by (cases ds) auto
  with assms(2) have d: "isdigit d" by simp
  have tw: "takeWhile isdigit (d # ds' @ rest) = d # ds'"
    using takeWhile_digits [OF assms(2,3)] by (simp add: ds)
  show ?thesis
    using assms(4) d tw isdigit_not_isspace [OF d] isdigit_not_is_sign [OF d]
    by (simp add: scan_u_def ds field_def strtoul_def is_sign_def)
qed

lemma sscanf_cme_digits:
  assumes "ds \<noteq> []" and "list_all isdigit ds" and "rest = [] \<or> \<not> isdigit (hd rest)"
    and "digits_val ds < 2 ^ 32"
  shows "sscanf (''+CME ERROR: '' @ ds @ rest) '' +CME ERROR: %u'' = (1, [UVal (word_of_nat (digits_val ds))])"
proof -
  from assms(1) obtain d ds' where ds: "ds = d # ds'" by (cases ds) auto
  with assms(2) have d: "\<not> isspace d" by (simp add: isdigit_not_isspace)
  have sp: "dropWhile isspace (d # ds' @ rest) = d # ds' @ rest" using d by simp
  have "scan_u 0 (d # ds' @ rest) = Scanned (word_of_nat (digits_val ds)) rest"
    using scan_u_digits [OF assms] by (simp add: ds)
  then show ?thesis
    unfolding sscanf_cme using sp by (simp add: isspace_def ds)
qed

lemma parseCmeError_digits:
  assumes "ds \<noteq> []" and "list_all isdigit ds" and "rest = [] \<or> \<not> isdigit (hd rest)"
    and "digits_val ds < 2 ^ 32"
  shows "CME_value (parseCmeError (''+CME ERROR: '' @ ds @ rest)) =
           (if digits_val ds \<in> {504, 505, 506, 516, 522, 549} then digits_val ds else 999)"
proof -
  define n where "n = digits_val ds"
  have n: "n < 2 ^ 32" using assms(4) by (simp add: n_def)
  have eq: "\<And>k. k < 2 ^ 32 \<Longrightarrow> ((word_of_nat n :: 32 word) = word_of_nat k) = (n = k)"
    using n by (simp add: word_of_nat_eq_iff take_bit_eq_mod)
  have e504: "((word_of_nat n :: 32 word) = 504) = (n = 504)" using eq [of 504] by simp
  have e505: "((word_of_nat n :: 32 word) = 505) = (n = 505)" using eq [of 505] by simp
  have e506: "((word_of_nat n :: 32 word) = 506) = (n = 506)" using eq [of 506] by simp
  have e516: "((word_of_nat n :: 32 word) = 516) = (n = 516)" using eq [of 516] by simp
  have e522: "((word_of_nat n :: 32 word) = 522) = (n = 522)" using eq [of 522] by simp
  have e549: "((word_of_nat n :: 32 word) = 549) = (n = 549)" using eq [of 549] by simp
  have "parseCmeError (''+CME ERROR: '' @ ds @ rest) =
          (if n = 504 \<or> n = 505 \<or> n = 506 \<or> n = 516 \<or> n = 522 \<or> n = 549
           then static_cast_CME (word_of_nat n) else UNDEFINED)"
    unfolding parseCmeError_def sscanf_cme_digits [OF assms] n_def [symmetric]
    by (simp add: uval_def e504 e505 e506 e516 e522 e549)
  then show ?thesis
    unfolding n_def [symmetric]
    by (auto simp: static_cast_CME_def)
qed

lemma parseCmeError_other:
  assumes "list_all isspace ws" and "\<not> isspace c" and "c \<noteq> CHR ''+''"
  shows "parseCmeError (ws @ c # rest) = NONE"
  unfolding parseCmeError_def sscanf_cme
  using assms(3) dropWhile_spaces [OF assms(1,2)] by simp

lemma parseCmeError_plus_other:
  assumes "list_all isspace ws" and "c \<noteq> CHR ''C''"
  shows "parseCmeError (ws @ CHR ''+'' # c # rest) = NONE"
proof -
  have "\<not> isspace CHR ''+''" by (simp add: isspace_def)
  from dropWhile_spaces [OF assms(1) this] show ?thesis
    unfolding parseCmeError_def sscanf_cme using assms(2) by simp
qed

text \<open>
  The same function line by line, against the error line in the spec's words.
\<close>

lemma run_directives_text:
  "run_directives (map Lit t @ ds) s acc =
     (case match_text t s of
        Carried r \<Rightarrow> run_directives ds r acc
      | Differs \<Rightarrow> (acc, False)
      | Ended \<Rightarrow> (acc, True))"
proof (induction t arbitrary: s)
  case Nil
  show ?case by simp
next
  case (Cons c t)
  show ?case
    by (cases s) (simp_all add: Cons.IH)
qed

lemma cme_directives:
  "[WS, Lit CHR ''+'', Lit CHR ''C'', Lit CHR ''M'', Lit CHR ''E'', WS,
    Lit CHR ''E'', Lit CHR ''R'', Lit CHR ''R'', Lit CHR ''O'', Lit CHR ''R'', Lit CHR '':'',
    WS, Conv False 0 ConvU] =
   WS # (map Lit ''+CME'' @ WS # (map Lit ''ERROR:'' @ [WS, Conv False 0 ConvU]))"
  by simp

lemma scan_u_spec:
  assumes "dropWhile isspace t = t"
  shows "(case scan_u 0 t of
            Scanned v x \<Rightarrow> run_directives [] x ([] @ [UVal v])
          | MatchFailure \<Rightarrow> ([], False)
          | InputFailure \<Rightarrow> ([], True)) =
         (if t = [] then ([], True)
          else case spec_decimal_code t of None \<Rightarrow> ([], False) | Some v \<Rightarrow> ([UVal v], False))"
proof (cases t)
  case Nil
  then show ?thesis by (simp add: scan_u_def)
next
  case (Cons c cs)
  with assms have d: "dropWhile isspace (c # cs) = c # cs" by simp
  show ?thesis
    unfolding Cons scan_u_def d
    by (simp add: spec_decimal_code_def field_def Let_def)
qed

text \<open>What \<^verbatim>\<open>sscanf\<close> returns on the format of \<open>parseCmeError\<close>, line by line.\<close>

lemma sscanf_cme_spec:
  "sscanf buf '' +CME ERROR: %u'' =
     (case spec_cme_marker buf of
        Differs \<Rightarrow> (0, [])
      | Ended \<Rightarrow> (- 1, [])
      | Carried r \<Rightarrow>
          (if r = [] then (- 1, [])
           else case spec_decimal_code r of None \<Rightarrow> (0, []) | Some v \<Rightarrow> (1, [UVal v])))"
proof -
  have u: "run_directives [Conv False 0 ConvU] (dropWhile isspace r) [] =
     (if dropWhile isspace r = [] then ([], True)
      else case spec_decimal_code (dropWhile isspace r) of
             None \<Rightarrow> ([], False) | Some v \<Rightarrow> ([UVal v], False))" for r
    using scan_u_spec [of "dropWhile isspace r"]
    by (simp only: run_directives.simps dropWhile_idem if_False)
  have "run_directives
      (WS # (map Lit ''+CME'' @ WS # (map Lit ''ERROR:'' @ [WS, Conv False 0 ConvU]))) buf [] =
     (case spec_cme_marker buf of
        Differs \<Rightarrow> ([], False)
      | Ended \<Rightarrow> ([], True)
      | Carried r \<Rightarrow>
          (if r = [] then ([], True)
           else case spec_decimal_code r of None \<Rightarrow> ([], False) | Some v \<Rightarrow> ([UVal v], False)))"
    unfolding run_directives.simps(2) run_directives_text spec_cme_marker_def u
    by (simp split: marker_match.splits)
  then show ?thesis
    unfolding sscanf_cme cme_directives
    by (simp split: marker_match.splits option.splits)
qed

lemma whitelist_value:
  "(code :: 32 word) = 504 \<or> code = 505 \<or> code = 506 \<or> code = 516 \<or> code = 522 \<or> code = 549
     \<Longrightarrow> CME_value (static_cast_CME code) = unat code"
  by (auto simp: static_cast_CME_def)

lemma whitelist_unat:
  "((code :: 32 word) = 504 \<or> code = 505 \<or> code = 506 \<or> code = 516 \<or> code = 522 \<or> code = 549)
     = (unat code \<in> {504, 505, 506, 516, 522, 549})"
proof -
  have "(code = w) = (unat code = unat w)" for w :: "32 word"
    by (simp add: word_unat_eq_iff)
  from this [of 504] this [of 505] this [of 506] this [of 516] this [of 522] this [of 549]
  show ?thesis by simp
qed

lemma parseCmeError_spec:
  "parseCmeError buf =
     (case spec_cme_marker buf of
        Differs \<Rightarrow> NONE
      | Ended \<Rightarrow> UNDEFINED
      | Carried r \<Rightarrow>
          (if r = [] then UNDEFINED
           else case spec_decimal_code r of
                  None \<Rightarrow> NONE
                | Some code \<Rightarrow>
                    if unat code \<in> {504, 505, 506, 516, 522, 549}
                    then static_cast_CME code else UNDEFINED))"
  unfolding parseCmeError_def sscanf_cme_spec whitelist_unat [symmetric]
  by (simp add: uval_def split: marker_match.splits option.splits)

text \<open>
  Claim C4, as the code has it.  When some character of the line differs from the marker
  \<^verbatim>\<open>+CME ERROR:\<close> (white space being skipped before the marker, after \<^verbatim>\<open>+CME\<close> and after
  the colon), \<open>parseCmeError\<close> returns \<open>NONE\<close>; so it does on a line whose first
  character after leading white space is not \<^verbatim>\<open>+\<close>, and on one that starts with \<^verbatim>\<open>+\<close>
  and goes on with a character other than \<^verbatim>\<open>C\<close>, as the fix report \<^verbatim>\<open>+QGPSLOC:\<close> does.
  When the line carries the marker and a decimal code follows, it returns the enumerator
  of the code when the code is 504, 505, 506, 516, 522 or 549, and \<open>UNDEFINED\<close> (999)
  for every other code.  When the marker is followed by text that is not a number, it
  returns \<open>NONE\<close>.  When the line ends inside the marker or right after it, it returns
  \<open>UNDEFINED\<close>.  These cases cover every line.
\<close>

theorem parseCmeError_whitelist:
  "(ds \<noteq> [] \<and> list_all isdigit ds \<and> (rest = [] \<or> \<not> isdigit (hd rest)) \<and> digits_val ds < 2 ^ 32
      \<longrightarrow> CME_value (parseCmeError (''+CME ERROR: '' @ ds @ rest)) =
            (if digits_val ds \<in> {504, 505, 506, 516, 522, 549} then digits_val ds else 999))
   \<and> (list_all isspace ws \<and> \<not> isspace c \<and> c \<noteq> CHR ''+''
      \<longrightarrow> parseCmeError (ws @ c # rest) = NONE)
   \<and> (list_all isspace ws \<and> c \<noteq> CHR ''C''
      \<longrightarrow> parseCmeError (ws @ CHR ''+'' # c # rest) = NONE)
   \<and> (spec_cme_marker buf = Differs \<longrightarrow> parseCmeError buf = NONE)
   \<and> (spec_cme_marker buf = Carried r \<and> spec_decimal_code r = Some code
      \<longrightarrow> CME_value (parseCmeError buf) =
            (if unat code \<in> {504, 505, 506, 516, 522, 549} then unat code else 999))
   \<and> (spec_cme_marker buf = Carried r \<and> r \<noteq> [] \<and> spec_decimal_code r = None
      \<longrightarrow> parseCmeError buf = NONE)
   \<and> (spec_cme_marker buf = Ended \<or> spec_cme_marker buf = Carried []
      \<longrightarrow> parseCmeError buf = UNDEFINED)"
proof (intro conjI impI)
  assume a: "ds \<noteq> [] \<and> list_all isdigit ds \<and> (rest = [] \<or> \<not> isdigit (hd rest))
    \<and> digits_val ds < 2 ^ 32"
  then have "ds \<noteq> []" and "list_all isdigit ds" and "rest = [] \<or> \<not> isdigit (hd rest)"
    and "digits_val ds < 2 ^ 32"
    by simp_all
  then show "CME_value (parseCmeError (''+CME ERROR: '' @ ds @ rest)) =
      (if digits_val ds \<in> {504, 505, 506, 516, 522, 549} then digits_val ds else 999)"
    by (rule parseCmeError_digits)
next
  assume "list_all isspace ws \<and> \<not> isspace c \<and> c \<noteq> CHR ''+''"
  then have "list_all isspace ws" and "\<not> isspace c" and "c \<noteq> CHR ''+''"
    by simp_all
  then show "parseCmeError (ws @ c # rest) = NONE"
    by (rule parseCmeError_other)
next
  assume "list_all isspace ws \<and> c \<noteq> CHR ''C''"
  then have "list_all isspace ws" and "c \<noteq> CHR ''C''"
    by simp_all
  then show "parseCmeError (ws @ CHR ''+'' # c # rest) = NONE"
    by (rule parseCmeError_plus_other)
next
  assume "spec_cme_marker buf = Differs"
  then show "parseCmeError buf = NONE"
    by (simp add: parseCmeError_spec)
next
  assume a: "spec_cme_marker buf = Carried r \<and> spec_decimal_code r = Some code"
  then have "r \<noteq> []"
    by (auto simp: spec_decimal_code_def)
  with a have "parseCmeError buf =
      (if unat code \<in> {504, 505, 506, 516, 522, 549} then static_cast_CME code else UNDEFINED)"
    by (simp add: parseCmeError_spec)
  then show "CME_value (parseCmeError buf) =
      (if unat code \<in> {504, 505, 506, 516, 522, 549} then unat code else 999)"
    using whitelist_value [of code] whitelist_unat [of code] by auto
next
  assume "spec_cme_marker buf = Carried r \<and> r \<noteq> [] \<and> spec_decimal_code r = None"
  then show "parseCmeError buf = NONE"
    by (simp add: parseCmeError_spec)
next
  assume "spec_cme_marker buf = Ended \<or> spec_cme_marker buf = Carried []"
  then show "parseCmeError buf = UNDEFINED"
    by (auto simp: parseCmeError_spec)
qed

lemmas spec_cme_defs = spec_cme_marker_def spec_decimal_code_def isspace_def isdigit_def
  is_sign_def strtoul_def digits_val_def

theorem parseCmeError_whitelist_witness:
  "CME_value (parseCmeError ''+CME ERROR: 516'') = 516
   \<and> CME_value (parseCmeError ''  +CME  ERROR:522 '') = 522
   \<and> CME_value (parseCmeError ''+CME ERROR: 501'') = 999
   \<and> parseCmeError ''OK'' = NONE
   \<and> parseCmeError ''+QGPSLOC: 123456.0,37.42241,-122.08407,1.2,10.0,3,000.00,0.0,0.0,010124,08'' = NONE
   \<and> parseCmeError ''+CME ERROR: x'' = NONE
   \<and> parseCmeError [] = UNDEFINED
   \<and> parseCmeError ''+CME'' = UNDEFINED"
proof -
  have "CME_value (parseCmeError ''+CME ERROR: 516'') = 516"
    using parseCmeError_whitelist [where buf = "''+CME ERROR: 516''" and r = "''516''" and code = 516]
    by (simp add: spec_cme_defs)
  moreover have "CME_value (parseCmeError ''  +CME  ERROR:522 '') = 522"
    using parseCmeError_whitelist [where buf = "''  +CME  ERROR:522 ''" and r = "''522 ''" and code = 522]
    by (simp add: spec_cme_defs)
  moreover have "CME_value (parseCmeError ''+CME ERROR: 501'') = 999"
    using parseCmeError_whitelist [where buf = "''+CME ERROR: 501''" and r = "''501''" and code = 501]
    by (simp add: spec_cme_defs)
  moreover have "parseCmeError ''OK'' = NONE"
    using parseCmeError_whitelist [where buf = "''OK''"]
    by (simp add: spec_cme_defs)
  moreover have "parseCmeError ''+QGPSLOC: 123456.0,37.42241,-122.08407,1.2,10.0,3,000.00,0.0,0.0,010124,08'' = NONE"
    using parseCmeError_whitelist
      [where buf = "''+QGPSLOC: 123456.0,37.42241,-122.08407,1.2,10.0,3,000.00,0.0,0.0,010124,08''"]
    by (simp add: spec_cme_defs)
  moreover have "parseCmeError ''+CME ERROR: x'' = NONE"
    using parseCmeError_whitelist [where buf = "''+CME ERROR: x''" and r = "''x''"]
    by (simp add: spec_cme_defs)
  moreover have "parseCmeError [] = UNDEFINED"
    using parseCmeError_whitelist [where buf = "[]"]
    by (simp add: spec_cme_defs)
  moreover have "parseCmeError ''+CME'' = UNDEFINED"
    using parseCmeError_whitelist [where buf = "''+CME''"]
    by (simp add: spec_cme_defs)
  ultimately show ?thesis
    by (simp only: simp_thms)
qed

text \<open>
  Claim C4 as stated fails: a \<^verbatim>\<open>+CME ERROR\<close> line with a code outside the list does not
  give \<open>NONE\<close>.
\<close>

theorem parseCmeError_unlisted_counterexample:
  "parseCmeError ''+CME ERROR: 501'' \<noteq> NONE"
  by (simp add: parseCmeError_def sscanf_def scan_u_def isspace_def isdigit_def field_def
      is_sign_def strtoul_def digits_val_def uval_def static_cast_CME_def)

section \<open>Constellation selection: results\<close>

text \<open>
  Claim C5 at the GPS-only selection.  \<^verbatim>\<open>LOCATION_CONST_GPS_ONLY\<close> is 0, so the test
  \<^verbatim>\<open>flags & LOCATION_CONST_GPS_ONLY\<close> is never true: on the BG95 and on the EG91 the
  GPS-only selection leaves \<^verbatim>\<open>configNumber\<close> at -1, and \<open>setConstellation\<close> sends no
  command and changes nothing.
\<close>

theorem setConstellation_GPS_ONLY:
  "setConstellation LOCATION_CONST_GPS_ONLY (s\<lparr>modemType := BG95_M5\<rparr>) = s\<lparr>modemType := BG95_M5\<rparr>
   \<and> setConstellation LOCATION_CONST_GPS_ONLY (s\<lparr>modemType := EG91\<rparr>) = s\<lparr>modemType := EG91\<rparr>"
  by (simp add: setConstellation_def configNumber_of_def nonzero_def LOCATION_CONST_GPS_ONLY_def
      LOCATION_CONST_GPS_GLONASS_def LOCATION_CONST_GPS_BEIDOU_def LOCATION_CONST_GPS_GALILEO_def
      LOCATION_CONST_GPS_QZSS_def)

text \<open>
  Property X3.  The configuration codes of the other selections: on the BG95, GLONASS
  is 1, BeiDou 2, Galileo 3 and QZSS 4; on the EG91, GLONASS is 4, BeiDou 7 and Galileo
  6, and QZSS has no code.  A selection that has a code is sent with
  \<^verbatim>\<open>AT+QGPSCFG="gnssconfig"\<close>; one that has none sends nothing.
\<close>

theorem setConstellation_codes:
  \<open>configNumber_of BG95_M5 LOCATION_CONST_GPS_GLONASS = 1
   \<and> configNumber_of BG95_M5 LOCATION_CONST_GPS_BEIDOU = 2
   \<and> configNumber_of BG95_M5 LOCATION_CONST_GPS_GALILEO = 3
   \<and> configNumber_of BG95_M5 LOCATION_CONST_GPS_QZSS = 4
   \<and> configNumber_of EG91 LOCATION_CONST_GPS_GLONASS = 4
   \<and> configNumber_of EG91 LOCATION_CONST_GPS_BEIDOU = 7
   \<and> configNumber_of EG91 LOCATION_CONST_GPS_GALILEO = 6
   \<and> configNumber_of EG91 LOCATION_CONST_GPS_QZSS = - 1
   \<and> commands (setConstellation LOCATION_CONST_GPS_BEIDOU (s\<lparr>modemType := EG91\<rparr>)) =
       commands s @ [''AT+QGPSCFG="gnssconfig",7'']
   \<and> commands (setConstellation LOCATION_CONST_GPS_QZSS (s\<lparr>modemType := EG91\<rparr>)) = commands s\<close>
  by (simp add: setConstellation_def configNumber_of_def nonzero_def LOCATION_CONST_GPS_ONLY_def
      LOCATION_CONST_GPS_GLONASS_def LOCATION_CONST_GPS_BEIDOU_def LOCATION_CONST_GPS_GALILEO_def
      LOCATION_CONST_GPS_QZSS_def Cellular_command_def sprintf_d_def dec.simps)

section \<open>The published payload: results\<close>

lemma toJsonWriter_unlocked:
  "fix_p p = 0 \<Longrightarrow> toJsonWriter p w True = w @ [BeginObject, Name ''lck'', ValInt 0, EndObject]"
  by (simp add: toJsonWriter_def)

lemma toJsonWriter_locked:
  "fix_p p \<noteq> 0 \<Longrightarrow>
   toJsonWriter p w True =
     w @ [BeginObject, Name ''lck'', ValInt 1,
          Name ''time'', ValUInt (word_of_int (epochTime p)),
          Name ''lat'', ValDouble (latitude p) 8,
          Name ''lon'', ValDouble (longitude p) 8,
          Name ''alt'', ValDouble (altitude p) 3,
          Name ''hd'', ValDouble (heading p) 2,
          Name ''spd'', ValDouble (speed p) 2,
          Name ''hdop'', ValDouble (horizontalDop p) 1]
       @ (if 0 < horizontalAccuracy p then [Name ''h_acc'', ValDouble (horizontalAccuracy p) 3] else [])
       @ (if 0 < verticalAccuracy p then [Name ''v_acc'', ValDouble (verticalAccuracy p) 3] else [])
       @ [Name ''nsat'', ValUInt (satsInUse p),
          Name ''ttff'', ValDouble (timeToFirstFix p) 1, EndObject]"
  by (simp add: toJsonWriter_def Let_def)

lemma toJsonWriter_h_acc:
  "(Name ''h_acc'' \<in> set (toJsonWriter p [] True)) = (fix_p p \<noteq> 0 \<and> 0 < horizontalAccuracy p)"
  by (cases "fix_p p = 0") (simp_all add: toJsonWriter_unlocked toJsonWriter_locked)

lemma toJsonWriter_v_acc:
  "(Name ''v_acc'' \<in> set (toJsonWriter p [] True)) = (fix_p p \<noteq> 0 \<and> 0 < verticalAccuracy p)"
  by (cases "fix_p p = 0") (simp_all add: toJsonWriter_unlocked toJsonWriter_locked)

text \<open>
  Claim C6.  The location object written for a point with \<open>fix_p = 0\<close> is the single
  field \<open>lck\<close> with value 0.  For any other point it is \<open>lck\<close> with value 1, \<open>time\<close>,
  \<open>lat\<close> and \<open>lon\<close> with 8 decimals, \<open>alt\<close> with 3, \<open>hd\<close> and \<open>spd\<close> with 2, \<open>hdop\<close>
  with 1, then \<open>h_acc\<close> and \<open>v_acc\<close> with 3 decimals, each present exactly when its
  value is positive, then \<open>nsat\<close> and \<open>ttff\<close> with 1 decimal.
\<close>

theorem toJsonWriter_object:
  "(fix_p p = 0 \<longrightarrow> toJsonWriter p w True = w @ [BeginObject, Name ''lck'', ValInt 0, EndObject])
   \<and> (fix_p p \<noteq> 0 \<longrightarrow>
        toJsonWriter p w True =
          w @ [BeginObject, Name ''lck'', ValInt 1,
               Name ''time'', ValUInt (word_of_int (epochTime p)),
               Name ''lat'', ValDouble (latitude p) 8,
               Name ''lon'', ValDouble (longitude p) 8,
               Name ''alt'', ValDouble (altitude p) 3,
               Name ''hd'', ValDouble (heading p) 2,
               Name ''spd'', ValDouble (speed p) 2,
               Name ''hdop'', ValDouble (horizontalDop p) 1]
            @ (if 0 < horizontalAccuracy p
               then [Name ''h_acc'', ValDouble (horizontalAccuracy p) 3] else [])
            @ (if 0 < verticalAccuracy p
               then [Name ''v_acc'', ValDouble (verticalAccuracy p) 3] else [])
            @ [Name ''nsat'', ValUInt (satsInUse p),
               Name ''ttff'', ValDouble (timeToFirstFix p) 1, EndObject])
   \<and> (Name ''h_acc'' \<in> set (toJsonWriter p [] True)) = (fix_p p \<noteq> 0 \<and> 0 < horizontalAccuracy p)
   \<and> (Name ''v_acc'' \<in> set (toJsonWriter p [] True)) = (fix_p p \<noteq> 0 \<and> 0 < verticalAccuracy p)"
proof (intro conjI impI)
  show "(Name ''h_acc'' \<in> set (toJsonWriter p [] True)) = (fix_p p \<noteq> 0 \<and> 0 < horizontalAccuracy p)"
    by (rule toJsonWriter_h_acc)
  show "(Name ''v_acc'' \<in> set (toJsonWriter p [] True)) = (fix_p p \<noteq> 0 \<and> 0 < verticalAccuracy p)"
    by (rule toJsonWriter_v_acc)
qed (erule toJsonWriter_unlocked, erule toJsonWriter_locked)

theorem toJsonWriter_object_witness:
  "toJsonWriter zero_point [] True = [BeginObject, Name ''lck'', ValInt 0, EndObject]
   \<and> toJsonWriter
        (zero_point\<lparr>fix_p := 1, latitude := 37.422408, longitude := - 122.084066,
                     horizontalAccuracy := 15\<rparr>) [] True =
       [BeginObject, Name ''lck'', ValInt 1, Name ''time'', ValUInt 0,
        Name ''lat'', ValDouble 37.422408 8, Name ''lon'', ValDouble (- 122.084066) 8,
        Name ''alt'', ValDouble 0 3, Name ''hd'', ValDouble 0 2, Name ''spd'', ValDouble 0 2,
        Name ''hdop'', ValDouble 0 1, Name ''h_acc'', ValDouble 15 3,
        Name ''nsat'', ValUInt 0, Name ''ttff'', ValDouble 0 1, EndObject]"
  using toJsonWriter_object [of zero_point "[]"]
    toJsonWriter_object
      [of "zero_point\<lparr>fix_p := 1, latitude := 37.422408, longitude := - 122.084066,
                        horizontalAccuracy := 15\<rparr>" "[]"]
  by (simp add: zero_point_def)

section \<open>The public entry points: results\<close>

lemma detectModemType_callerPoint:
  "fst (detectModemType env (s\<lparr>callerPoint := z\<rparr>)) = fst (detectModemType env s)"
  by (simp add: detectModemType_def modemNotDetected_def split: CellularDev.splits)

lemma detectModemType_acquiring:
  "acquiring (snd (detectModemType env s)) = acquiring s"
  by (simp add: detectModemType_def split: CellularDev.splits)

lemma detectModemType_commandQueue:
  "commandQueue (snd (detectModemType env s)) = commandQueue s"
  by (simp add: detectModemType_def split: CellularDev.splits)




text \<open>
  Claim C10.  A call of \<open>getLocation\<close> or \<open>getLocationAsync\<close> that is turned away
  (the modem is off; or the modem type is not read yet and the detection fails; or an
  acquisition is in flight) stores the code it returns as the last result, and puts
  nothing on the command queue.  So \<open>getLastResults\<close> gives that code afterwards and
  \<open>getHasFix\<close> is false, whatever the last result was before.
\<close>

theorem rejected_call_overwrites_lastResults:
  "(\<not> env_on env \<longrightarrow>
      fst (getLocation env pub s) = Unavailable
      \<and> getLastResults (snd (getLocation env pub s)) = Unavailable
      \<and> fst (getLocationAsync env callback s) = Unavailable
      \<and> getLastResults (snd (getLocationAsync env callback s)) = Unavailable)
   \<and> (env_on env \<and> modemNotDetected s \<and> \<not> fst (detectModemType env s) \<longrightarrow>
      fst (getLocation env pub s) = Unsupported
      \<and> getLastResults (snd (getLocation env pub s)) = Unsupported
      \<and> fst (getLocationAsync env callback s) = Unsupported
      \<and> getLastResults (snd (getLocationAsync env callback s)) = Unsupported)
   \<and> (env_on env \<and> (\<not> modemNotDetected s \<or> fst (detectModemType env s)) \<and> acquiring s \<longrightarrow>
      fst (getLocation env pub s) = Pending
      \<and> getLastResults (snd (getLocation env pub s)) = Pending
      \<and> fst (getLocationAsync env callback s) = Pending
      \<and> getLastResults (snd (getLocationAsync env callback s)) = Pending)
   \<and> (\<not> env_on env \<or> (modemNotDetected s \<and> \<not> fst (detectModemType env s)) \<or> acquiring s \<longrightarrow>
      \<not> getHasFix (snd (getLocation env pub s))
      \<and> \<not> getHasFix (snd (getLocationAsync env callback s))
      \<and> commandQueue (snd (getLocation env pub s)) = commandQueue s
      \<and> commandQueue (snd (getLocationAsync env callback s)) = commandQueue s)"
proof -
  have d: "fst (detectModemType env (s\<lparr>callerPoint := zero_point\<rparr>)) = fst (detectModemType env s)"
    by (rule detectModemType_callerPoint)
  have a: "acquiring (snd (detectModemType env (s\<lparr>callerPoint := zero_point\<rparr>))) = acquiring s"
    "acquiring (snd (detectModemType env s)) = acquiring s"
    by (simp_all add: detectModemType_acquiring)
  have q: "commandQueue (snd (detectModemType env (s\<lparr>callerPoint := zero_point\<rparr>))) = commandQueue s"
    "commandQueue (snd (detectModemType env s)) = commandQueue s"
    by (simp_all add: detectModemType_commandQueue)
  show ?thesis
    using d a q
    by (auto simp: getLocation_def getLocationAsync_def getLastResults_def getHasFix_def
        modemNotDetected_def Let_def split: prod.splits)
qed

theorem rejected_call_overwrites_lastResults_witness:
  "getHasFix (QuectelGnssRK_new\<lparr>modemType := EG91, lastResults := Fixed\<rparr>)
   \<and> fst (getLocation \<lparr>env_on = False, env_on_detect = False, env_dev = DEV_QUECTEL_EG91_EX,
                 env_response = None, env_point = zero_point, env_connected = True,
                 env_published = True\<rparr> False
          (QuectelGnssRK_new\<lparr>modemType := EG91, lastResults := Fixed\<rparr>)) = Unavailable
   \<and> \<not> getHasFix (snd (getLocation \<lparr>env_on = False, env_on_detect = False, env_dev = DEV_QUECTEL_EG91_EX,
                 env_response = None, env_point = zero_point, env_connected = True,
                 env_published = True\<rparr> False
          (QuectelGnssRK_new\<lparr>modemType := EG91, lastResults := Fixed\<rparr>)))
   \<and> getLastResults (snd (getLocationAsync \<lparr>env_on = True, env_on_detect = True, env_dev = DEV_OTHER 7,
                 env_response = None, env_point = zero_point, env_connected = True,
                 env_published = True\<rparr> True
          (QuectelGnssRK_new\<lparr>lastResults := Fixed\<rparr>))) = Unsupported
   \<and> getLastResults (snd (getLocationAsync \<lparr>env_on = True, env_on_detect = True, env_dev = DEV_QUECTEL_EG91_EX,
                 env_response = None, env_point = zero_point, env_connected = True,
                 env_published = True\<rparr> True
          (QuectelGnssRK_new\<lparr>acquiring := True, lastResults := Fixed\<rparr>))) = Pending"
  using rejected_call_overwrites_lastResults
      [of "\<lparr>env_on = False, env_on_detect = False, env_dev = DEV_QUECTEL_EG91_EX,
                 env_response = None, env_point = zero_point, env_connected = True,
                 env_published = True\<rparr>" False
          "QuectelGnssRK_new\<lparr>modemType := EG91, lastResults := Fixed\<rparr>" True]
    rejected_call_overwrites_lastResults
      [of "\<lparr>env_on = True, env_on_detect = True, env_dev = DEV_OTHER 7,
                 env_response = None, env_point = zero_point, env_connected = True,
                 env_published = True\<rparr>" False
          "QuectelGnssRK_new\<lparr>lastResults := Fixed\<rparr>" True]
    rejected_call_overwrites_lastResults
      [of "\<lparr>env_on = True, env_on_detect = True, env_dev = DEV_QUECTEL_EG91_EX,
                 env_response = None, env_point = zero_point, env_connected = True,
                 env_published = True\<rparr>" False
          "QuectelGnssRK_new\<lparr>acquiring := True, lastResults := Fixed\<rparr>" True]
  by (simp add: QuectelGnssRK_new_def getHasFix_def modemNotDetected_def detectModemType_def)

section \<open>The acquisition worker: results\<close>

lemma poll_query_frame:
  assumes "poll_query ob s = (ret, s1)"
  shows "modemType s1 = modemType s" and "gnssStarted s1 = gnssStarted s"
    and "antennaLevel s1 = antennaLevel s" and "antennaPowerPin s1 = antennaPowerPin s"
    and "conf s1 = conf s" and "commands s1 = commands s @ [''AT+QGPSLOC=2'']"
  using assms
  by (auto simp: poll_query_def Cellular_command_def Let_def split: prod.splits)

lemma poll_epe_frame:
  \<open>modemType (poll_epe ob s) = modemType s\<close>
  \<open>gnssStarted (poll_epe ob s) = gnssStarted s\<close>
  \<open>antennaLevel (poll_epe ob s) = antennaLevel s\<close>
  \<open>antennaPowerPin (poll_epe ob s) = antennaPowerPin s\<close>
  \<open>conf (poll_epe ob s) = conf s\<close>
  \<open>commands (poll_epe ob s) = commands s @ [''AT+QGPSCFG="estimation_error"'']\<close>
  by (simp_all add: poll_epe_def Cellular_command_def Let_def split: prod.splits)

lemma poll_fix_frame:
  \<open>modemType (poll_fix start ob s) = modemType s\<close>
  \<open>gnssStarted (poll_fix start ob s) = gnssStarted s\<close>
  \<open>antennaLevel (poll_fix start ob s) = antennaLevel s\<close>
  \<open>antennaPowerPin (poll_fix start ob s) = antennaPowerPin s\<close>
  \<open>conf (poll_fix start ob s) = conf s\<close>
  \<open>commands (poll_fix start ob s) =
     commands s @ (if BG95_M5 = modemType s then [''AT+QGPSCFG="estimation_error"''] else [])\<close>
  by (simp_all add: poll_fix_def poll_epe_frame Let_def)

text \<open>One pass of the loop that does not end it: the state and locals it goes on with.\<close>

lemma poll_loop_Cons:
  "poll_loop start mt (ob # obs) s l =
     (if \<not> ob_power ob then Some (s, l\<lparr>power := False\<rparr>)
      else if mt \<le> ob_now ob - start then Some (s, l\<lparr>power := True\<rparr>)
      else if FIX = fst (poll_query ob s) then
        (if settled (fixCount l + 1) (poll_fix start ob (snd (poll_query ob s)))
         then Some (poll_fix start ob (snd (poll_query ob s)),
                    l\<lparr>fixCount := fixCount l + 1, response := Fixed, power := True\<rparr>)
         else poll_loop start mt obs (poll_fix start ob (snd (poll_query ob s)))
                (l\<lparr>fixCount := fixCount l + 1, power := True\<rparr>))
      else poll_loop start mt obs (snd (poll_query ob s)) (l\<lparr>power := True\<rparr>))"
  by (simp split: prod.splits)

declare poll_loop.simps(2) [simp del]

lemma poll_loop_frame:
  "poll_loop start mt obs s l = Some (s', l') \<Longrightarrow>
     modemType s' = modemType s \<and> gnssStarted s' = gnssStarted s
     \<and> antennaLevel s' = antennaLevel s \<and> antennaPowerPin s' = antennaPowerPin s
     \<and> conf s' = conf s
     \<and> (\<exists>xs. commands s' = commands s @ xs \<and> ''AT+QGPSEND'' \<notin> set xs)"
proof (induction obs arbitrary: s l)
  case Nil
  then show ?case by simp
next
  case (Cons ob obs)
  obtain ret s1 where q: "poll_query ob s = (ret, s1)"
    by (cases "poll_query ob s")
  note f1 = poll_query_frame [OF q]
  note f2 = poll_fix_frame [of start ob s1]
  consider (stop) "\<not> ob_power ob \<or> mt \<le> ob_now ob - start"
    | (accept) "ob_power ob" "\<not> mt \<le> ob_now ob - start" "FIX = ret"
        "settled (fixCount l + 1) (poll_fix start ob s1)"
    | (count) "ob_power ob" "\<not> mt \<le> ob_now ob - start" "FIX = ret"
        "\<not> settled (fixCount l + 1) (poll_fix start ob s1)"
    | (nofix) "ob_power ob" "\<not> mt \<le> ob_now ob - start" "FIX \<noteq> ret"
    by blast
  then show ?case
  proof cases
    case stop
    with Cons.prems show ?thesis
      by (auto simp: poll_loop_Cons split: if_splits)
  next
    case accept
    with Cons.prems q have "s' = poll_fix start ob s1"
      by (simp add: poll_loop_Cons)
    then show ?thesis
      using f1 f2 by simp
  next
    case count
    with Cons.prems q
    have "poll_loop start mt obs (poll_fix start ob s1) (l\<lparr>fixCount := fixCount l + 1, power := True\<rparr>)
            = Some (s', l')"
      by (simp add: poll_loop_Cons)
    from Cons.IH [OF this] show ?thesis
      using f1 f2 by auto
  next
    case nofix
    with Cons.prems q
    have "poll_loop start mt obs s1 (l\<lparr>power := True\<rparr>) = Some (s', l')"
      by (simp add: poll_loop_Cons)
    from Cons.IH [OF this] show ?thesis
      using f1 by auto
  qed
qed

lemma poll_loop_ends:
  "\<exists>ob\<in>set obs. \<not> ob_power ob \<or> mt \<le> ob_now ob - start \<Longrightarrow> poll_loop start mt obs s l \<noteq> None"
proof (induction obs arbitrary: s l)
  case Nil
  then show ?case by simp
next
  case (Cons ob obs)
  show ?case
  proof (cases "\<not> ob_power ob \<or> mt \<le> ob_now ob - start")
    case True
    then show ?thesis by (auto simp: poll_loop_Cons)
  next
    case False
    with Cons.prems have "\<exists>ob\<in>set obs. \<not> ob_power ob \<or> mt \<le> ob_now ob - start"
      by auto
    from Cons.IH [OF this] show ?thesis
      using False by (simp add: poll_loop_Cons)
  qed
qed

text \<open>While the loop runs the response stays as it was; it ends with the modem seen on
  exactly when it ends on the time limit or with \<open>Fixed\<close>.\<close>

lemma poll_loop_append_None:
  "poll_loop start mt pre s l = None \<Longrightarrow>
     \<exists>s1 l1. response l1 = response l
       \<and> (\<forall>rest. poll_loop start mt (pre @ rest) s l = poll_loop start mt rest s1 l1)"
proof (induction pre arbitrary: s l)
  case Nil
  show ?case by (rule exI [of _ s], rule exI [of _ l]) simp
next
  case (Cons ob pre)
  from Cons.prems have run: "ob_power ob" "\<not> mt \<le> ob_now ob - start"
    by (auto simp: poll_loop_Cons split: if_splits)
  show ?case
  proof (cases "FIX = fst (poll_query ob s)")
    case True
    with Cons.prems run
    have ns: "\<not> settled (fixCount l + 1) (poll_fix start ob (snd (poll_query ob s)))"
      and n: "poll_loop start mt pre (poll_fix start ob (snd (poll_query ob s)))
               (l\<lparr>fixCount := fixCount l + 1, power := True\<rparr>) = None"
      by (auto simp: poll_loop_Cons split: if_splits)
    from Cons.IH [OF n] obtain s1 l1 where
      "response l1 = response l"
      "\<forall>rest. poll_loop start mt (pre @ rest) (poll_fix start ob (snd (poll_query ob s)))
               (l\<lparr>fixCount := fixCount l + 1, power := True\<rparr>) = poll_loop start mt rest s1 l1"
      by auto
    then show ?thesis
      using run True ns by (auto simp: poll_loop_Cons)
  next
    case False
    with Cons.prems run
    have n: "poll_loop start mt pre (snd (poll_query ob s)) (l\<lparr>power := True\<rparr>) = None"
      by (auto simp: poll_loop_Cons split: if_splits)
    from Cons.IH [OF n] obtain s1 l1 where
      "response l1 = response l"
      "\<forall>rest. poll_loop start mt (pre @ rest) (snd (poll_query ob s)) (l\<lparr>power := True\<rparr>)
          = poll_loop start mt rest s1 l1"
      by auto
    then show ?thesis
      using run False by (auto simp: poll_loop_Cons)
  qed
qed

lemma poll_loop_append_Some:
  "poll_loop start mt pre s l = Some r \<Longrightarrow> poll_loop start mt (pre @ rest) s l = Some r"
proof (induction pre arbitrary: s l)
  case Nil
  then show ?case by simp
next
  case (Cons ob pre)
  then show ?case
    by (auto simp: poll_loop_Cons split: if_splits)
qed

lemma lastResults_deliver: "lastResults (deliver event r s) = r"
  by (simp add: deliver_def Let_def)

text \<open>
  Claim C7.  If the worker is still polling after the observations \<open>pre\<close> and the next
  observation shows the modem off, the acquisition ends there, whatever would follow,
  and its outcome is \<open>Unavailable\<close>.  If the acquisition has ended with \<open>Fixed\<close> on
  \<open>pre\<close>, a power-off observed afterwards changes nothing: the outcome is \<open>Fixed\<close>.
\<close>

theorem power_off_during_poll:
  "(threadLoop_Acquire event start pre s = None \<and> \<not> ob_power ob \<longrightarrow>
      (\<exists>s'. threadLoop_Acquire event start (pre @ ob # post) s = Some s'
             \<and> lastResults s' = Unavailable))
   \<and> (threadLoop_Acquire event start pre s = Some s1 \<and> lastResults s1 = Fixed \<longrightarrow>
      (\<exists>s'. threadLoop_Acquire event start (pre @ ob # post) s = Some s'
             \<and> lastResults s' = Fixed))"
proof (intro conjI impI)
  define s2 where "s2 = (if \<not> gnssStarted s
      then start_gnss (s\<lparr>acquiring := True, lastLocation := zero_point\<rparr>)
      else s\<lparr>acquiring := True, lastLocation := zero_point\<rparr>)"
  define mt :: "64 word" where "mt = ucast (maximumFixTime (conf s2)) * 1000"
  define l0 where "l0 = \<lparr>fixCount = 0, response = TimedOut, power = False\<rparr>"
  have unf: "\<And>obs. threadLoop_Acquire event start obs s =
      (case poll_loop start mt obs s2 l0 of None \<Rightarrow> None
       | Some (s3, l) \<Rightarrow> Some (deliver event (final_response l) (stop_gnss s3)))"
    by (simp add: threadLoop_Acquire_def Let_def s2_def mt_def l0_def)
  {
    assume a: "threadLoop_Acquire event start pre s = None \<and> \<not> ob_power ob"
    then have "poll_loop start mt pre s2 l0 = None"
      by (simp add: unf split: option.splits prod.splits)
    from poll_loop_append_None [OF this] obtain sa la where
      r: "response la = TimedOut"
      and c: "\<And>rest. poll_loop start mt (pre @ rest) s2 l0 = poll_loop start mt rest sa la"
      by (auto simp: l0_def)
    have "poll_loop start mt (pre @ ob # post) s2 l0 = Some (sa, la\<lparr>power := False\<rparr>)"
      using a by (simp add: c poll_loop_Cons)
    then show "\<exists>s'. threadLoop_Acquire event start (pre @ ob # post) s = Some s'
        \<and> lastResults s' = Unavailable"
      using r by (simp add: unf lastResults_deliver final_response_def)
  }
  {
    assume a: "threadLoop_Acquire event start pre s = Some s1 \<and> lastResults s1 = Fixed"
    then obtain r where p: "poll_loop start mt pre s2 l0 = Some r"
      by (auto simp: unf split: option.splits prod.splits)
    from poll_loop_append_Some [OF this]
    have "threadLoop_Acquire event start (pre @ ob # post) s = threadLoop_Acquire event start pre s"
      by (simp add: unf p)
    with a show "\<exists>s'. threadLoop_Acquire event start (pre @ ob # post) s = Some s'
        \<and> lastResults s' = Fixed"
      by simp
  }
qed

lemma start_gnss_frame:
  "modemType (start_gnss s) = modemType s"
  "antennaPowerPin (start_gnss s) = antennaPowerPin s"
  "conf (start_gnss s) = conf s"
  "gnssStarted (start_gnss s)"
  "antennaLevel (start_gnss s) = (if antennaPowerPin s = None then antennaLevel s else True)"
  by (simp_all add: start_gnss_def setConstellation_def Cellular_command_def setAntennaPower_def
      Let_def)

lemma start_gnss_commands:
  "\<exists>xs. commands (start_gnss s) = commands s @ xs \<and> ''AT+QGPSEND'' \<notin> set xs"
  by (simp add: start_gnss_def setConstellation_def Cellular_command_def setAntennaPower_def
      Let_def)

lemma deliver_frame:
  "gnssStarted (deliver event r s) = gnssStarted s"
  "antennaLevel (deliver event r s) = antennaLevel s"
  "commands (deliver event r s) = commands s"
  by (simp_all add: deliver_def Let_def)

text \<open>
  Claim C8.  An acquisition that ends, with whatever outcome, leaves the BG95 with
  \<^verbatim>\<open>AT+QGPSEND\<close> as the last command sent, the started flag cleared and, when an
  antenna pin is configured, the pin low.  On the EG91 it leaves the started flag set,
  has sent no \<^verbatim>\<open>AT+QGPSEND\<close>, and leaves the antenna pin high when it raised it.  The
  acquisition does end when an observation shows the modem off or the time limit
  reached.
\<close>

theorem gnss_after_acquisition:
  "(threadLoop_Acquire event start obs s = Some s' \<and> modemType s = BG95_M5 \<longrightarrow>
      \<not> gnssStarted s' \<and> commands s' \<noteq> [] \<and> last (commands s') = ''AT+QGPSEND''
      \<and> (antennaPowerPin s \<noteq> None \<longrightarrow> \<not> antennaLevel s'))
   \<and> (threadLoop_Acquire event start obs s = Some s' \<and> modemType s = EG91 \<longrightarrow>
      gnssStarted s'
      \<and> (\<exists>xs. commands s' = commands s @ xs \<and> ''AT+QGPSEND'' \<notin> set xs)
      \<and> (antennaPowerPin s \<noteq> None \<and> \<not> gnssStarted s \<longrightarrow> antennaLevel s'))
   \<and> ((\<exists>ob\<in>set obs. \<not> ob_power ob
          \<or> ucast (maximumFixTime (conf s)) * 1000 \<le> ob_now ob - start) \<longrightarrow>
      threadLoop_Acquire event start obs s \<noteq> None)"
proof -
  define s2 where "s2 = (if \<not> gnssStarted s
      then start_gnss (s\<lparr>acquiring := True, lastLocation := zero_point\<rparr>)
      else s\<lparr>acquiring := True, lastLocation := zero_point\<rparr>)"
  define mt :: "64 word" where "mt = ucast (maximumFixTime (conf s2)) * 1000"
  define l0 where "l0 = \<lparr>fixCount = 0, response = TimedOut, power = False\<rparr>"
  have unf: "threadLoop_Acquire event start obs s =
      (case poll_loop start mt obs s2 l0 of None \<Rightarrow> None
       | Some (s3, l) \<Rightarrow> Some (deliver event (final_response l) (stop_gnss s3)))"
    by (simp add: threadLoop_Acquire_def Let_def s2_def mt_def l0_def)
  have s2: "modemType s2 = modemType s" "antennaPowerPin s2 = antennaPowerPin s"
    "conf s2 = conf s" "gnssStarted s2"
    "antennaPowerPin s \<noteq> None \<and> \<not> gnssStarted s \<longrightarrow> antennaLevel s2"
    by (auto simp: s2_def start_gnss_frame)
  have c2: "\<exists>xs. commands s2 = commands s @ xs \<and> ''AT+QGPSEND'' \<notin> set xs"
    using start_gnss_commands [of "s\<lparr>acquiring := True, lastLocation := zero_point\<rparr>"]
    by (simp add: s2_def)
  have mt: "mt = ucast (maximumFixTime (conf s)) * 1000"
    by (simp add: mt_def s2)
  have ends: "(\<exists>ob\<in>set obs. \<not> ob_power ob
        \<or> ucast (maximumFixTime (conf s)) * 1000 \<le> ob_now ob - start) \<longrightarrow>
      threadLoop_Acquire event start obs s \<noteq> None"
  proof
    assume "\<exists>ob\<in>set obs. \<not> ob_power ob \<or> ucast (maximumFixTime (conf s)) * 1000 \<le> ob_now ob - start"
    then have "poll_loop start mt obs s2 l0 \<noteq> None"
      unfolding mt [symmetric] by (rule poll_loop_ends)
    then show "threadLoop_Acquire event start obs s \<noteq> None"
      by (auto simp: unf)
  qed
  have post: "threadLoop_Acquire event start obs s = Some s' \<Longrightarrow>
      (modemType s = BG95_M5 \<longrightarrow>
         \<not> gnssStarted s' \<and> commands s' \<noteq> [] \<and> last (commands s') = ''AT+QGPSEND''
         \<and> (antennaPowerPin s \<noteq> None \<longrightarrow> \<not> antennaLevel s'))
      \<and> (modemType s = EG91 \<longrightarrow>
         gnssStarted s'
         \<and> (\<exists>xs. commands s' = commands s @ xs \<and> ''AT+QGPSEND'' \<notin> set xs)
         \<and> (antennaPowerPin s \<noteq> None \<and> \<not> gnssStarted s \<longrightarrow> antennaLevel s'))"
  proof -
    assume "threadLoop_Acquire event start obs s = Some s'"
    then obtain s3 l where p: "poll_loop start mt obs s2 l0 = Some (s3, l)"
      and s': "s' = deliver event (final_response l) (stop_gnss s3)"
      by (auto simp: unf split: option.splits prod.splits)
    from poll_loop_frame [OF p] s2 c2 obtain xs where
      f: "modemType s3 = modemType s" "gnssStarted s3" "antennaPowerPin s3 = antennaPowerPin s"
         "antennaPowerPin s \<noteq> None \<and> \<not> gnssStarted s \<longrightarrow> antennaLevel s3"
         "commands s3 = commands s @ xs" "''AT+QGPSEND'' \<notin> set xs"
      by auto
    show ?thesis
      using f
      by (auto simp: s' deliver_frame stop_gnss_def concurrentGnssAndCellularSupported_def
          clearAntennaPower_def Cellular_command_def)
  qed
  from ends post show ?thesis by blast
qed

section \<open>Evaluation on the sample responses\<close>

lemmas scan_defs = sscanf_def scan_u_def scan_f_def isspace_def isdigit_def field_def is_sign_def
  strtoul_def digits_val_def

lemma sscanf_report_good:
  "sscanf report_good
     '' +QGPSLOC: %02u%02u%02u.%*03u,%lf,%lf,%f,%f,%u,%03u.%02u,%f,%f,%02u%02u%02u,%u'' =
   (16, [UVal 12, UVal 34, UVal 56, FVal (3742241 / 100000), FVal (- (12208407 / 100000)),
         FVal (6 / 5), FVal 10, UVal 3, UVal 123, UVal 30, FVal 36,
         FVal (97 / 5), UVal 1, UVal 1, UVal 24, UVal 8])"
  by (simp add: report_good_def scan_defs)

lemma sscanf_report_poor:
  "sscanf report_poor
     '' +QGPSLOC: %02u%02u%02u.%*03u,%lf,%lf,%f,%f,%u,%03u.%02u,%f,%f,%02u%02u%02u,%u'' =
   (16, [UVal 12, UVal 34, UVal 56, FVal (3742241 / 100000), FVal (- (12208407 / 100000)),
         FVal 5, FVal 10, UVal 3, UVal 123, UVal 30, FVal 36,
         FVal (97 / 5), UVal 1, UVal 1, UVal 24, UVal 8])"
  by (simp add: report_poor_def scan_defs)

lemma sscanf_report_cut:
  "sscanf report_cut
     '' +QGPSLOC: %02u%02u%02u.%*03u,%lf,%lf,%f,%f,%u,%03u.%02u,%f,%f,%02u%02u%02u,%u'' =
   (1, [UVal 12])"
  by (simp add: report_cut_def scan_defs)

lemma sscanf_empty:
  "sscanf []
     '' +QGPSLOC: %02u%02u%02u.%*03u,%lf,%lf,%f,%f,%u,%03u.%02u,%f,%f,%02u%02u%02u,%u'' =
   (- 1, [])"
  by (simp add: scan_defs)

lemma store_good:
  "set_timeinfo (store_qloc [UVal 12, UVal 34, UVal 56, FVal (3742241 / 100000), FVal (- (12208407 / 100000)),
         FVal (6 / 5), FVal 10, UVal 3, UVal 123, UVal 30, FVal 36,
         FVal (97 / 5), UVal 1, UVal 1, UVal 24, UVal 8] c) = context_good"
  by (cases c) (simp add: store_qloc_def set_timeinfo_def uval_def fval_def context_good_def)

lemma parseQloc_report_good:
  "parseQloc report_good c p = (0, context_good, set_point context_good p)"
  by (simp add: parseQloc_def sscanf_report_good store_good)

lemma set_point_good:
  "set_point context_good p =
     p\<lparr>epochTime := 1704112496, fix_p := 3, latitude := 3742241 / 100000,
       longitude := - (12208407 / 100000), altitude := 10, speed := 36000,
       heading := 247 / 2, horizontalDop := 6 / 5, satsInUse := 8\<rparr>"
  by (simp add: set_point_def context_good_def mktime_def days_from_civil_def)


lemma store_poor:
  "set_timeinfo (store_qloc [UVal 12, UVal 34, UVal 56, FVal (3742241 / 100000), FVal (- (12208407 / 100000)),
         FVal 5, FVal 10, UVal 3, UVal 123, UVal 30, FVal 36,
         FVal (97 / 5), UVal 1, UVal 1, UVal 24, UVal 8] c) = context_good\<lparr>hdop := 5\<rparr>"
  by (cases c) (simp add: store_qloc_def set_timeinfo_def uval_def fval_def context_good_def)

lemma parseQloc_report_poor:
  "parseQloc report_poor c p = (0, context_good\<lparr>hdop := 5\<rparr>, set_point (context_good\<lparr>hdop := 5\<rparr>) p)"
  by (simp add: parseQloc_def sscanf_report_poor store_poor)

lemma parseCmeError_reports:
  "parseCmeError report_good = NONE" "parseCmeError report_poor = NONE"
  "parseCmeError report_cut = NONE"
  by (simp_all add: report_good_def report_poor_def report_cut_def parseCmeError_def scan_defs)

text \<open>
  One pass of the loop on the EG91 over a full fix report with HDOP \<open>h\<close>, within the
  time limit: the report counts, and it is accepted exactly when the count reaches 2
  and the thresholds hold.
\<close>

lemma poll_step_report:
  assumes "modemType s = EG91" and "ob_power ob" and "\<not> mt \<le> ob_now ob - start"
    and "parseQlocResponse (ob_loc ob) (qlocContext s) (lastLocation s) = (FIX, c, pt)"
    and "horizontalDop pt = h" and "horizontalAccuracy pt = horizontalAccuracy (lastLocation s)"
  shows "\<exists>S. modemType S = EG91 \<and> conf S = conf s
           \<and> horizontalAccuracy (lastLocation S) = horizontalAccuracy (lastLocation s)
           \<and> poll_loop start mt (ob # obs) s l =
               (if fixCount l + 1 = 2 \<and> h \<le> real_of_int (hdopThreshold (conf s))
                   \<and> horizontalAccuracy (lastLocation s) \<le> haccThreshold (conf s)
                then Some (S, l\<lparr>fixCount := fixCount l + 1, response := Fixed, power := True\<rparr>)
                else poll_loop start mt obs S (l\<lparr>fixCount := fixCount l + 1, power := True\<rparr>))"
proof -
  define s1 where "s1 = snd (poll_query ob s)"
  have q: "poll_query ob s = (FIX, s1)" and s1: "modemType s1 = EG91" "conf s1 = conf s"
    "lastLocation s1 = pt"
    using assms(1,4) by (simp_all add: s1_def poll_query_def Cellular_command_def Let_def)
  define S where "S = poll_fix start ob s1"
  have S: "modemType S = EG91" "conf S = conf s" "horizontalAccuracy (lastLocation S) = horizontalAccuracy (lastLocation s)"
    "horizontalDop (lastLocation S) = h"
    using s1 assms(5,6) by (simp_all add: S_def poll_fix_def Let_def)
  have "settled n S = (n = 2 \<and> h \<le> real_of_int (hdopThreshold (conf s))
      \<and> horizontalAccuracy (lastLocation s) \<le> haccThreshold (conf s))" for n
    using S by (auto simp: settled_def LOCATION_REQUIRED_SETTLING_COUNT_def)
  then have "poll_loop start mt (ob # obs) s l =
      (if fixCount l + 1 = 2 \<and> h \<le> real_of_int (hdopThreshold (conf s))
          \<and> horizontalAccuracy (lastLocation s) \<le> haccThreshold (conf s)
       then Some (S, l\<lparr>fixCount := fixCount l + 1, response := Fixed, power := True\<rparr>)
       else poll_loop start mt obs S (l\<lparr>fixCount := fixCount l + 1, power := True\<rparr>))"
    using assms(2,3) q by (simp add: poll_loop_Cons S_def)
  with S show ?thesis by blast
qed

lemma poll_step_good:
  assumes "modemType s = EG91" and "\<not> mt \<le> t - start"
  shows "\<exists>S. modemType S = EG91 \<and> conf S = conf s
           \<and> horizontalAccuracy (lastLocation S) = horizontalAccuracy (lastLocation s)
           \<and> poll_loop start mt (observe t report_good # obs) s l =
               (if fixCount l + 1 = 2 \<and> 6 / 5 \<le> real_of_int (hdopThreshold (conf s))
                   \<and> horizontalAccuracy (lastLocation s) \<le> haccThreshold (conf s)
                then Some (S, l\<lparr>fixCount := fixCount l + 1, response := Fixed, power := True\<rparr>)
                else poll_loop start mt obs S (l\<lparr>fixCount := fixCount l + 1, power := True\<rparr>))"
  by (rule poll_step_report [where c = context_good and pt = "set_point context_good (lastLocation s)"])
     (use assms in \<open>simp_all add: observe_def parseQlocResponse_def parseCmeError_reports
        parseQloc_report_good set_point_def context_good_def\<close>)

lemma poll_step_poor:
  assumes "modemType s = EG91" and "\<not> mt \<le> t - start"
  shows "\<exists>S. modemType S = EG91 \<and> conf S = conf s
           \<and> horizontalAccuracy (lastLocation S) = horizontalAccuracy (lastLocation s)
           \<and> poll_loop start mt (observe t report_poor # obs) s l =
               (if fixCount l + 1 = 2 \<and> 5 \<le> real_of_int (hdopThreshold (conf s))
                   \<and> horizontalAccuracy (lastLocation s) \<le> haccThreshold (conf s)
                then Some (S, l\<lparr>fixCount := fixCount l + 1, response := Fixed, power := True\<rparr>)
                else poll_loop start mt obs S (l\<lparr>fixCount := fixCount l + 1, power := True\<rparr>))"
  by (rule poll_step_report [where c = "context_good\<lparr>hdop := 5\<rparr>"
        and pt = "set_point (context_good\<lparr>hdop := 5\<rparr>) (lastLocation s)"])
     (use assms in \<open>simp_all add: observe_def parseQlocResponse_def parseCmeError_reports
        parseQloc_report_poor set_point_def\<close>)


lemma ucast_maxTime:
  "ucast (maximumFixTime LocationConfiguration_new) * 1000 = (90000 :: 64 word)"
  by (simp add: LocationConfiguration_new_def)

text \<open>
  An EG91 that polls two good reports one second apart, under the default
  configuration, ends with \<open>Fixed\<close> and stays started.
\<close>

lemma two_good_reports_fixed:
  "\<exists>s'. threadLoop_Acquire sync_request 0 [observe 0 report_good, observe 1000 report_good]
            (QuectelGnssRK_new\<lparr>modemType := EG91\<rparr>) = Some s'
        \<and> lastResults s' = Fixed"
proof -
  define s2 where "s2 = start_gnss (QuectelGnssRK_new\<lparr>modemType := EG91, acquiring := True,
      lastLocation := zero_point\<rparr>)"
  define l0 where "l0 = \<lparr>fixCount = 0, response = TimedOut, power = False\<rparr>"
  have s2: "modemType s2 = EG91" "conf s2 = LocationConfiguration_new"
    "horizontalAccuracy (lastLocation s2) = 0"
    by (simp_all add: s2_def start_gnss_frame start_gnss_def setConstellation_def
        Cellular_command_def setAntennaPower_def Let_def QuectelGnssRK_new_def zero_point_def)
  have unf: "threadLoop_Acquire sync_request 0 obs (QuectelGnssRK_new\<lparr>modemType := EG91\<rparr>) =
      (case poll_loop 0 90000 obs s2 l0 of None \<Rightarrow> None
       | Some (s3, l) \<Rightarrow> Some (deliver sync_request (final_response l) (stop_gnss s3)))" for obs
    using ucast_maxTime s2(2)
    by (simp add: threadLoop_Acquire_def Let_def s2_def l0_def QuectelGnssRK_new_def)
  obtain S1 where S1: "modemType S1 = EG91" "conf S1 = LocationConfiguration_new"
    "horizontalAccuracy (lastLocation S1) = 0"
    and p1: "poll_loop 0 90000 [observe 0 report_good, observe 1000 report_good] s2 l0 =
      poll_loop 0 90000 [observe 1000 report_good] S1 (l0\<lparr>fixCount := 1, power := True\<rparr>)"
    using poll_step_good [of s2 90000 0 0 "[observe 1000 report_good]" l0] s2
    by (auto simp: l0_def)
  obtain S2 where
    p2: "poll_loop 0 90000 [observe 1000 report_good] S1 (l0\<lparr>fixCount := 1, power := True\<rparr>) =
      Some (S2, l0\<lparr>fixCount := 2, response := Fixed, power := True\<rparr>)"
    using poll_step_good [of S1 90000 1000 0 "[]" "l0\<lparr>fixCount := 1, power := True\<rparr>"] S1
    by (auto simp: l0_def LocationConfiguration_new_def)
  show ?thesis
    by (simp add: unf p1 p2 lastResults_deliver final_response_def)
qed

text \<open>
  Claim C1 at the sequence it names.  The EG91 (which has no accuracy report), with the
  HDOP threshold at 2, polls a good report (HDOP 1.2), a fix report over the threshold
  (HDOP 5.0), then two good reports one second apart, and then reaches the time limit.
  The count of fix reports is 2 at the report over the threshold, which is not accepted,
  and 3 and 4 at the two good reports that follow; the count is never reset and is
  compared with 2 for equality, so they are not accepted either, and the acquisition
  ends \<open>TimedOut\<close>.
\<close>

theorem stabilization_restart_timed_out:
  "\<exists>s'. threadLoop_Acquire sync_request 0
            [observe 0 report_good, observe 1000 report_poor, observe 2000 report_good,
             observe 3000 report_good, observe 90000 report_good]
            (QuectelGnssRK_new\<lparr>modemType := EG91,
               conf := LocationConfiguration_new\<lparr>hdopThreshold := 2\<rparr>\<rparr>) = Some s'
        \<and> lastResults s' = TimedOut"
proof -
  define cf where "cf = LocationConfiguration_new\<lparr>hdopThreshold := 2\<rparr>"
  define s0 where "s0 = QuectelGnssRK_new\<lparr>modemType := EG91, conf := cf\<rparr>"
  define s2 where "s2 = start_gnss (s0\<lparr>acquiring := True, lastLocation := zero_point\<rparr>)"
  define l0 where "l0 = \<lparr>fixCount = 0, response = TimedOut, power = False\<rparr>"
  have cf: "hdopThreshold cf = 2" "haccThreshold cf = 50" "maximumFixTime cf = 90"
    by (simp_all add: cf_def LocationConfiguration_new_def)
  have s2: "modemType s2 = EG91" "conf s2 = cf" "horizontalAccuracy (lastLocation s2) = 0"
    by (simp_all add: s2_def s0_def start_gnss_frame start_gnss_def setConstellation_def
        Cellular_command_def setAntennaPower_def Let_def QuectelGnssRK_new_def zero_point_def)
  have unf: "threadLoop_Acquire sync_request 0 obs s0 =
      (case poll_loop 0 90000 obs s2 l0 of None \<Rightarrow> None
       | Some (s3, l) \<Rightarrow> Some (deliver sync_request (final_response l) (stop_gnss s3)))" for obs
    using s2(2) cf(3)
    by (simp add: threadLoop_Acquire_def Let_def s2_def l0_def s0_def QuectelGnssRK_new_def)
  let ?o5 = "observe 90000 report_good"
  obtain S1 where S1: "modemType S1 = EG91" "conf S1 = cf" "horizontalAccuracy (lastLocation S1) = 0"
    and p1: "poll_loop 0 90000 [observe 0 report_good, observe 1000 report_poor,
        observe 2000 report_good, observe 3000 report_good, ?o5] s2 l0 =
      poll_loop 0 90000 [observe 1000 report_poor, observe 2000 report_good,
        observe 3000 report_good, ?o5] S1 (l0\<lparr>fixCount := 1, power := True\<rparr>)"
    using poll_step_good [of s2 90000 0 0 _ l0] s2
    by (auto simp: l0_def)
  obtain S2 where S2: "modemType S2 = EG91" "conf S2 = cf" "horizontalAccuracy (lastLocation S2) = 0"
    and p2: "poll_loop 0 90000 [observe 1000 report_poor, observe 2000 report_good,
        observe 3000 report_good, ?o5] S1 (l0\<lparr>fixCount := 1, power := True\<rparr>) =
      poll_loop 0 90000 [observe 2000 report_good, observe 3000 report_good, ?o5] S2
        (l0\<lparr>fixCount := 2, power := True\<rparr>)"
    using poll_step_poor [of S1 90000 1000 0 _ "l0\<lparr>fixCount := 1, power := True\<rparr>"] S1 cf
    by (auto simp: l0_def)
  obtain S3 where S3: "modemType S3 = EG91" "conf S3 = cf" "horizontalAccuracy (lastLocation S3) = 0"
    and p3: "poll_loop 0 90000 [observe 2000 report_good, observe 3000 report_good, ?o5] S2
        (l0\<lparr>fixCount := 2, power := True\<rparr>) =
      poll_loop 0 90000 [observe 3000 report_good, ?o5] S3 (l0\<lparr>fixCount := 3, power := True\<rparr>)"
    using poll_step_good [of S2 90000 2000 0 _ "l0\<lparr>fixCount := 2, power := True\<rparr>"] S2
    by (auto simp: l0_def)
  obtain S4 where
    p4: "poll_loop 0 90000 [observe 3000 report_good, ?o5] S3 (l0\<lparr>fixCount := 3, power := True\<rparr>) =
      poll_loop 0 90000 [?o5] S4 (l0\<lparr>fixCount := 4, power := True\<rparr>)"
    using poll_step_good [of S3 90000 3000 0 _ "l0\<lparr>fixCount := 3, power := True\<rparr>"] S3
    by (auto simp: l0_def)
  have p5: "poll_loop 0 90000 [?o5] S4 (l0\<lparr>fixCount := 4, power := True\<rparr>) =
      Some (S4, l0\<lparr>fixCount := 4, power := True\<rparr>)"
    by (simp add: poll_loop_Cons observe_def)
  have r0: "response l0 = TimedOut"
    by (simp add: l0_def)
  have "\<exists>s'. threadLoop_Acquire sync_request 0
      [observe 0 report_good, observe 1000 report_poor, observe 2000 report_good,
       observe 3000 report_good, ?o5] s0 = Some s' \<and> lastResults s' = TimedOut"
    by (simp add: unf p1 p2 p3 p4 p5 lastResults_deliver final_response_def r0)
  then show ?thesis
    by (simp only: s0_def cf_def)
qed

section \<open>The fix report and the worker on the sample responses\<close>

text \<open>
  Claim C3 at \<open>report_good\<close>, a report of 2024-01-01 12:34:56 with course 123 degrees 30
  minutes and speed 36.0 km/h.  The epoch time is 1704112496 and the heading 123.5, as
  the claim says.  The speed stored is 36000, the km/h value times 1000; in meters per
  second the speed is 10.
\<close>

theorem parseQloc_derived_fields:
  "fst (parseQloc report_good c p) = 0
   \<and> epochTime (snd (snd (parseQloc report_good c p))) = 1704112496
   \<and> heading (snd (snd (parseQloc report_good c p))) = 247 / 2
   \<and> speedKmph (fst (snd (parseQloc report_good c p))) = 36
   \<and> speed (snd (snd (parseQloc report_good c p))) = 36000"
proof -
  have "speedKmph context_good = 36"
    by (simp add: context_good_def)
  then show ?thesis
    by (simp add: parseQloc_report_good set_point_good)
qed

text \<open>
  Claim C2 at a report cut off after the hour, and at the empty line.  \<^verbatim>\<open>sscanf\<close>
  returns 1 on the first and \<^verbatim>\<open>EOF\<close> on the second; \<open>parseQloc\<close> tests its result
  against 0 only, so it returns 0 for both and fills the point from the context, here
  with the latitude of the report parsed before.  On the report cut off,
  \<open>parseQlocResponse\<close> returns \<open>FIX\<close>; the empty line it stops at \<open>parseCmeError\<close>,
  which returns \<open>UNDEFINED\<close> there.
\<close>

theorem parseQloc_partial_line:
  "fst (parseQloc report_cut context_good zero_point) = 0
   \<and> latitude (snd (snd (parseQloc report_cut context_good zero_point))) = 3742241 / 100000
   \<and> snd (snd (parseQloc report_cut context_good zero_point)) \<noteq> zero_point
   \<and> fst (parseQlocResponse report_cut context_good zero_point) = FIX
   \<and> fst (parseQloc [] context_good zero_point) = 0
   \<and> snd (snd (parseQloc [] context_good zero_point)) \<noteq> zero_point"
proof -
  have c: "set_timeinfo (store_qloc [UVal 12] context_good) = context_good"
    "set_timeinfo (store_qloc [] context_good) = context_good"
    by (simp_all add: store_qloc_def set_timeinfo_def uval_def fval_def context_good_def)
  have p: "parseQloc report_cut context_good zero_point = (0, context_good, set_point context_good zero_point)"
    "parseQloc [] context_good zero_point = (0, context_good, set_point context_good zero_point)"
    by (simp_all add: parseQloc_def sscanf_report_cut sscanf_empty c)
  have n: "set_point context_good zero_point \<noteq> zero_point"
  proof
    assume "set_point context_good zero_point = zero_point"
    then have "fix_p (set_point context_good zero_point) = fix_p zero_point"
      by simp
    then show False
      by (simp add: set_point_good zero_point_def)
  qed
  show ?thesis
    using n by (simp add: p parseQlocResponse_def parseCmeError_reports set_point_good)
qed

theorem power_off_during_poll_witness:
  "threadLoop_Acquire sync_request 0 [] (QuectelGnssRK_new\<lparr>modemType := EG91\<rparr>) = None
   \<and> \<not> ob_power (observe_off 0)
   \<and> (\<exists>s'. threadLoop_Acquire sync_request 0 [observe_off 0, observe 1000 report_good]
              (QuectelGnssRK_new\<lparr>modemType := EG91\<rparr>) = Some s'
            \<and> lastResults s' = Unavailable)
   \<and> (\<exists>s'. threadLoop_Acquire sync_request 0
              [observe 0 report_good, observe 1000 report_good, observe_off 2000]
              (QuectelGnssRK_new\<lparr>modemType := EG91\<rparr>) = Some s'
            \<and> lastResults s' = Fixed)"
proof -
  let ?s = "QuectelGnssRK_new\<lparr>modemType := EG91\<rparr>"
  obtain s1 where f: "threadLoop_Acquire sync_request 0
      [observe 0 report_good, observe 1000 report_good] ?s = Some s1" "lastResults s1 = Fixed"
    using two_good_reports_fixed by blast
  have n: "threadLoop_Acquire sync_request 0 [] ?s = None"
    by (simp add: threadLoop_Acquire_def Let_def)
  have off: "\<not> ob_power (observe_off 0)"
    by (simp add: observe_off_def)
  show ?thesis
    using n off f
      power_off_during_poll [of sync_request 0 "[]" ?s "observe_off 0" "[observe 1000 report_good]"]
      power_off_during_poll [of sync_request 0 "[observe 0 report_good, observe 1000 report_good]"
        ?s "observe_off 2000" "[]" s1]
    by simp
qed

theorem gnss_after_acquisition_witness:
  "threadLoop_Acquire sync_request 0 [observe_off 0]
       (QuectelGnssRK_new\<lparr>modemType := BG95_M5, antennaPowerPin := Some 5\<rparr>) \<noteq> None
   \<and> \<not> gnssStarted (the (threadLoop_Acquire sync_request 0 [observe_off 0]
       (QuectelGnssRK_new\<lparr>modemType := BG95_M5, antennaPowerPin := Some 5\<rparr>)))
   \<and> last (commands (the (threadLoop_Acquire sync_request 0 [observe_off 0]
       (QuectelGnssRK_new\<lparr>modemType := BG95_M5, antennaPowerPin := Some 5\<rparr>)))) = ''AT+QGPSEND''
   \<and> \<not> antennaLevel (the (threadLoop_Acquire sync_request 0 [observe_off 0]
       (QuectelGnssRK_new\<lparr>modemType := BG95_M5, antennaPowerPin := Some 5\<rparr>)))
   \<and> lastResults (the (threadLoop_Acquire sync_request 0
       [observe 0 report_good, observe 1000 report_good]
       (QuectelGnssRK_new\<lparr>modemType := EG91\<rparr>))) = Fixed
   \<and> gnssStarted (the (threadLoop_Acquire sync_request 0
       [observe 0 report_good, observe 1000 report_good]
       (QuectelGnssRK_new\<lparr>modemType := EG91\<rparr>)))"
proof -
  let ?b = "QuectelGnssRK_new\<lparr>modemType := BG95_M5, antennaPowerPin := Some 5\<rparr>"
  let ?e = "QuectelGnssRK_new\<lparr>modemType := EG91\<rparr>"
  have off: "\<exists>ob\<in>set [observe_off 0]. \<not> ob_power ob
      \<or> ucast (maximumFixTime (conf ?b)) * 1000 \<le> ob_now ob - 0"
    by (simp add: observe_off_def)
  from off gnss_after_acquisition [of sync_request 0 "[observe_off 0]" ?b]
  have nb: "threadLoop_Acquire sync_request 0 [observe_off 0] ?b \<noteq> None"
    by blast
  then obtain sb where sb: "threadLoop_Acquire sync_request 0 [observe_off 0] ?b = Some sb"
    by blast
  have mb: "modemType ?b = BG95_M5" "antennaPowerPin ?b \<noteq> None"
    by simp_all
  from sb mb gnss_after_acquisition [of sync_request 0 "[observe_off 0]" ?b sb]
  have b: "\<not> gnssStarted sb" "last (commands sb) = ''AT+QGPSEND''" "\<not> antennaLevel sb"
    by blast+
  obtain se where se: "threadLoop_Acquire sync_request 0
      [observe 0 report_good, observe 1000 report_good] ?e = Some se" "lastResults se = Fixed"
    using two_good_reports_fixed by blast
  have me: "modemType ?e = EG91"
    by simp
  from se(1) me gnss_after_acquisition
    [of sync_request 0 "[observe 0 report_good, observe 1000 report_good]" ?e se]
  have e: "gnssStarted se"
    by blast
  show ?thesis
    using nb b e se by (simp add: sb)
qed

section \<open>Further properties of the parser and the poll loop\<close>

lemma parse_fmt_plus:
  "parse_fmt Normal (CHR '' '' # CHR ''+'' # fmt) = WS # Lit CHR ''+'' # parse_fmt Normal fmt"
  by (simp add: isspace_def)

lemma sscanf_qloc_other:
  assumes "list_all isspace ws" and "\<not> isspace ch" and "ch \<noteq> CHR ''+''"
  shows "sscanf (ws @ ch # rest) (CHR '' '' # CHR ''+'' # fmt) = (0, [])"
  unfolding sscanf_def parse_fmt_plus
  using assms(3) dropWhile_spaces [OF assms(1,2)] by simp

text \<open>
  Property X1.  \<open>parseQloc\<close> returns -1 exactly when \<^verbatim>\<open>sscanf\<close> returns 0, and then the
  point is as it was.  This is so for every line whose first character after leading
  white space is not \<^verbatim>\<open>+\<close>.
\<close>

theorem parseQloc_no_match:
  \<open>(fst (parseQloc buf ctx pt) = - 1) =
     (fst (sscanf buf
        '' +QGPSLOC: %02u%02u%02u.%*03u,%lf,%lf,%f,%f,%u,%03u.%02u,%f,%f,%02u%02u%02u,%u'') = 0)
   \<and> (fst (parseQloc buf ctx pt) = - 1 \<longrightarrow> snd (snd (parseQloc buf ctx pt)) = pt)
   \<and> (list_all isspace ws \<and> \<not> isspace ch \<and> ch \<noteq> CHR ''+'' \<longrightarrow>
        fst (parseQloc (ws @ ch # rest) ctx pt) = - 1)\<close>
proof (intro conjI impI)
  show \<open>(fst (parseQloc buf ctx pt) = - 1) =
     (fst (sscanf buf
        '' +QGPSLOC: %02u%02u%02u.%*03u,%lf,%lf,%f,%f,%u,%03u.%02u,%f,%f,%02u%02u%02u,%u'') = 0)\<close>
    by (simp add: parseQloc_def split: prod.splits)
  show "snd (snd (parseQloc buf ctx pt)) = pt"
    if "fst (parseQloc buf ctx pt) = - 1"
    using that by (simp add: parseQloc_def split: prod.splits if_splits)
  show "fst (parseQloc (ws @ ch # rest) ctx pt) = - 1"
    if "list_all isspace ws \<and> \<not> isspace ch \<and> ch \<noteq> CHR ''+''"
  proof -
    from that have "list_all isspace ws" and "\<not> isspace ch" and "ch \<noteq> CHR ''+''"
      by simp_all
    from sscanf_qloc_other [OF this] show ?thesis
      by (simp add: parseQloc_def)
  qed
qed

theorem parseQloc_no_match_witness:
  "fst (parseQloc ''OK'' context_good zero_point) = - 1
   \<and> snd (snd (parseQloc ''OK'' context_good zero_point)) = zero_point"
  using parseQloc_no_match [of "''OK''" context_good zero_point "[]" "CHR ''O''" "''K''"]
  by (simp add: isspace_def)

text \<open>
  Property X2.  Once two fix reports have been counted, the loop does not change the
  response any more: a later report is never accepted, whatever its quality.
\<close>

theorem poll_loop_no_late_fix:
  "2 \<le> fixCount l \<and> poll_loop start mt obs s l = Some (s', l') \<longrightarrow> response l' = response l"
proof (induction obs arbitrary: s l)
  case Nil
  show ?case by simp
next
  case (Cons ob obs)
  show ?case
  proof
    assume a: "2 \<le> fixCount l \<and> poll_loop start mt (ob # obs) s l = Some (s', l')"
    then have ns: "\<not> settled (fixCount l + 1) S" for S
      by (simp add: settled_def LOCATION_REQUIRED_SETTLING_COUNT_def)
    have i1: "response l' = response (l\<lparr>fixCount := fixCount l + 1, power := True\<rparr>)"
      if "poll_loop start mt obs S (l\<lparr>fixCount := fixCount l + 1, power := True\<rparr>) = Some (s', l')"
      for S
      using Cons.IH [of "l\<lparr>fixCount := fixCount l + 1, power := True\<rparr>" S] that a by simp
    have i2: "response l' = response (l\<lparr>power := True\<rparr>)"
      if "poll_loop start mt obs S (l\<lparr>power := True\<rparr>) = Some (s', l')" for S
      using Cons.IH [of "l\<lparr>power := True\<rparr>" S] that a by simp
    from a have "poll_loop start mt (ob # obs) s l = Some (s', l')"
      by simp
    then show "response l' = response l"
      using ns i1 i2 by (auto simp: poll_loop_Cons split: if_splits)
  qed
qed

theorem poll_loop_no_late_fix_witness:
  "poll_loop 0 90000 [observe_off 0] QuectelGnssRK_new \<lparr>fixCount = 2, response = TimedOut, power = True\<rparr>
     = Some (QuectelGnssRK_new, \<lparr>fixCount = 2, response = TimedOut, power = False\<rparr>)
   \<and> response \<lparr>fixCount = 2, response = TimedOut, power = False\<rparr> = TimedOut"
  using poll_loop_no_late_fix [of "\<lparr>fixCount = 2, response = TimedOut, power = True\<rparr>" 0 90000
      "[observe_off 0]" QuectelGnssRK_new QuectelGnssRK_new
      "\<lparr>fixCount = 2, response = TimedOut, power = False\<rparr>"]
  by (simp add: poll_loop_Cons observe_off_def observe_def)

end
